theory Spec2Isabelle
  imports Complex_Main "HOL-Library.Sublist"
begin

section \<open>JavaScript values and string primitives\<close>

text \<open>
  The server and the frontend are TypeScript/JavaScript. A string is modelled as a list of
  8-bit characters, read as UTF-16 code units below 256 (ASCII and Latin-1); a number is
  modelled as an integer (the JSON integers whose decimal form \<^verbatim>\<open>String\<close> prints without an
  exponent). A JSON object is the list of its own properties in \<^verbatim>\<open>Object.entries\<close> order.
\<close>

datatype jsval =
    JUndefined
  | JNull
  | JBool bool
  | JNum int
  | JStr string
  | JArr "jsval list"
  | JObj "(string \<times> jsval) list"

fun truthy :: "jsval \<Rightarrow> bool" where
  \<comment> \<open>ToBoolean, as used by \<^verbatim>\<open>!v\<close>, \<^verbatim>\<open>v && ...\<close> and \<^verbatim>\<open>v || ...\<close>\<close>
  "truthy JUndefined = False"
| "truthy JNull = False"
| "truthy (JBool b) = b"
| "truthy (JNum n) = (n \<noteq> 0)"
| "truthy (JStr s) = (s \<noteq> [])"
| "truthy (JArr xs) = True"
| "truthy (JObj fs) = True"

definition asciiUpper :: string where
  "asciiUpper = ''ABCDEFGHIJKLMNOPQRSTUVWXYZ''"

definition asciiLower :: string where
  "asciiLower = ''abcdefghijklmnopqrstuvwxyz''"

definition latinUpper :: string where
  "latinUpper = [CHR 0xC0, CHR 0xC1, CHR 0xC2, CHR 0xC3, CHR 0xC4, CHR 0xC5, CHR 0xC6, CHR 0xC7,
                 CHR 0xC8, CHR 0xC9, CHR 0xCA, CHR 0xCB, CHR 0xCC, CHR 0xCD, CHR 0xCE, CHR 0xCF,
                 CHR 0xD0, CHR 0xD1, CHR 0xD2, CHR 0xD3, CHR 0xD4, CHR 0xD5, CHR 0xD6,
                 CHR 0xD8, CHR 0xD9, CHR 0xDA, CHR 0xDB, CHR 0xDC, CHR 0xDD, CHR 0xDE]"

definition latinLower :: string where
  "latinLower = [CHR 0xE0, CHR 0xE1, CHR 0xE2, CHR 0xE3, CHR 0xE4, CHR 0xE5, CHR 0xE6, CHR 0xE7,
                 CHR 0xE8, CHR 0xE9, CHR 0xEA, CHR 0xEB, CHR 0xEC, CHR 0xED, CHR 0xEE, CHR 0xEF,
                 CHR 0xF0, CHR 0xF1, CHR 0xF2, CHR 0xF3, CHR 0xF4, CHR 0xF5, CHR 0xF6,
                 CHR 0xF8, CHR 0xF9, CHR 0xFA, CHR 0xFB, CHR 0xFC, CHR 0xFD, CHR 0xFE]"

definition toLowerChar :: "char \<Rightarrow> char" where
  "toLowerChar c =
     (case map_of (zip (asciiUpper @ latinUpper) (asciiLower @ latinLower)) c of
        Some l \<Rightarrow> l
      | None \<Rightarrow> c)"

definition toUpperChar :: "char \<Rightarrow> char" where
  "toUpperChar c =
     (case map_of (zip (asciiLower @ latinLower) (asciiUpper @ latinUpper)) c of
        Some u \<Rightarrow> u
      | None \<Rightarrow> c)"

definition toLowerCase :: "string \<Rightarrow> string" where
  \<comment> \<open>\<^verbatim>\<open>String.prototype.toLowerCase\<close> on code units below 256\<close>
  "toLowerCase s = map toLowerChar s"

definition whiteSpaceChars :: string where
  \<comment> \<open>WhiteSpace and LineTerminator code units below 256: TAB, LF, VT, FF, CR, SP, NBSP\<close>
  "whiteSpaceChars = [CHR 0x09, CHR 0x0A, CHR 0x0B, CHR 0x0C, CHR 0x0D, CHR 0x20, CHR 0xA0]"

definition isWhiteSpace :: "char \<Rightarrow> bool" where
  "isWhiteSpace c = (c \<in> set whiteSpaceChars)"

definition trim :: "string \<Rightarrow> string" where
  \<comment> \<open>\<^verbatim>\<open>String.prototype.trim\<close>\<close>
  "trim s = rev (dropWhile isWhiteSpace (rev (dropWhile isWhiteSpace s)))"

definition includesStr :: "string \<Rightarrow> string \<Rightarrow> bool" where
  \<comment> \<open>\<^verbatim>\<open>s.includes(sub)\<close>: \<open>sub\<close> occurs in \<open>s\<close> as a contiguous run\<close>
  "includesStr s sub = sublist sub s"

definition startsWith :: "string \<Rightarrow> string \<Rightarrow> bool" where
  \<comment> \<open>\<^verbatim>\<open>s.startsWith(p)\<close>\<close>
  "startsWith s p = prefix p s"

fun splitOn :: "char \<Rightarrow> string \<Rightarrow> string list" where
  \<comment> \<open>\<^verbatim>\<open>s.split(sep)\<close> for a one-character separator; the result is never empty\<close>
  "splitOn sep [] = [[]]"
| "splitOn sep (c # cs) =
     (if c = sep then [] # splitOn sep cs
      else (case splitOn sep cs of [] \<Rightarrow> [[c]] | w # ws \<Rightarrow> (c # w) # ws))"

fun join :: "string \<Rightarrow> string list \<Rightarrow> string" where
  \<comment> \<open>\<^verbatim>\<open>xs.join(sep)\<close> on an array of strings\<close>
  "join sep [] = []"
| "join sep [x] = x"
| "join sep (x # y # ys) = x @ sep @ join sep (y # ys)"

definition elemAt :: "'a list \<Rightarrow> nat \<Rightarrow> 'a option" where
  \<comment> \<open>\<^verbatim>\<open>xs[i]\<close>; \<open>None\<close> is \<^verbatim>\<open>undefined\<close>\<close>
  "elemAt xs i = (if i < length xs then Some (xs ! i) else None)"

definition digitChars :: string where
  "digitChars = ''0123456789''"


definition digitChar :: "nat \<Rightarrow> char" where
  "digitChar d = digitChars ! (d mod 10)"

function digitsOf :: "nat \<Rightarrow> string" where
  "digitsOf n = (if n < 10 then [digitChar n] else digitsOf (n div 10) @ [digitChar (n mod 10)])"
  by pat_completeness auto
termination
  by (relation "measure id") auto

definition showInt :: "int \<Rightarrow> string" where
  \<comment> \<open>the decimal form of an integer, as \<^verbatim>\<open>String(n)\<close> and template literals print it\<close>
  "showInt n = (if n < 0 then CHR ''-'' # digitsOf (nat (- n)) else digitsOf (nat n))"




fun String_js :: "jsval \<Rightarrow> string" where
  \<comment> \<open>\<^verbatim>\<open>String(v)\<close>; an array prints its elements separated by commas, with
      \<^verbatim>\<open>null\<close> and \<^verbatim>\<open>undefined\<close> elements printed as the empty string\<close>
  "String_js JUndefined = ''undefined''"
| "String_js JNull = ''null''"
| "String_js (JBool b) = (if b then ''true'' else ''false'')"
| "String_js (JNum n) = showInt n"
| "String_js (JStr s) = s"
| "String_js (JArr xs) =
     join '','' (map (\<lambda>x. case x of JUndefined \<Rightarrow> [] | JNull \<Rightarrow> [] | _ \<Rightarrow> String_js x) xs)"
| "String_js (JObj fs) = ''[object Object]''"

type_synonym CommandOptions = "(string \<times> jsval) list"

definition getProp :: "CommandOptions \<Rightarrow> string \<Rightarrow> jsval" where
  \<comment> \<open>\<^verbatim>\<open>options.key\<close>: the property's value, \<^verbatim>\<open>undefined\<close> when the object has none\<close>
  "getProp options key = (case map_of options key of None \<Rightarrow> JUndefined | Some v \<Rightarrow> v)"

fun setProp :: "CommandOptions \<Rightarrow> string \<Rightarrow> jsval \<Rightarrow> CommandOptions" where
  \<comment> \<open>\<^verbatim>\<open>obj[key] = value\<close>: overwrite in place, or add as the last property\<close>
  "setProp [] key value = [(key, value)]"
| "setProp ((k, v) # rest) key value =
     (if k = key then (k, value) # rest else (k, v) # setProp rest key value)"

fun entries :: "jsval \<Rightarrow> CommandOptions" where
  \<comment> \<open>\<^verbatim>\<open>Object.entries(v)\<close> for the values the route lets through\<close>
  "entries (JObj fs) = fs"
| "entries (JArr xs) = zip (map (\<lambda>i. digitsOf i) [0..<length xs]) xs"
| "entries v = []"

subsection \<open>Regular expressions\<close>

text \<open>
  The regular-expression literals of the source are written as terms of \<open>regex\<close> and run
  by a backtracking matcher that returns every way to match at the front of the input, in
  the order JavaScript tries them (alternatives left to right, greedy repetition first).
  \<open>execFrom\<close> is \<^verbatim>\<open>String.prototype.match\<close> for a regular expression without the
  \<^verbatim>\<open>g\<close> flag: the first match at the leftmost position, with its capture groups.
\<close>

datatype regex =
    Lit char
  | OneOf string
  | Dot
  | Seq regex regex
  | Alt regex regex
  | Star regex
  | Group nat regex

type_synonym captures = "(nat \<times> string) list"

type_synonym mstate = "string \<times> captures"

definition lineTerminators :: string where
  "lineTerminators = [CHR 0x0A, CHR 0x0D]"

definition charMatches :: "bool \<Rightarrow> char \<Rightarrow> char \<Rightarrow> bool" where
  \<comment> \<open>with the \<^verbatim>\<open>i\<close> flag both characters are canonicalised by upper-casing\<close>
  "charMatches ignoreCase p c = (if ignoreCase then toUpperChar p = toUpperChar c else p = c)"

function (sequential) matchAt :: "bool \<Rightarrow> regex \<Rightarrow> mstate \<Rightarrow> mstate list" where
  "matchAt i (Lit p) (s, caps) =
     (case s of [] \<Rightarrow> [] | c # rest \<Rightarrow> if charMatches i p c then [(rest, caps)] else [])"
| "matchAt i (OneOf ps) (s, caps) =
     (case s of [] \<Rightarrow> []
      | c # rest \<Rightarrow> if list_ex (\<lambda>p. charMatches i p c) ps then [(rest, caps)] else [])"
| "matchAt i Dot (s, caps) =
     (case s of [] \<Rightarrow> [] | c # rest \<Rightarrow> if c \<in> set lineTerminators then [] else [(rest, caps)])"
| "matchAt i (Seq r1 r2) st = concat (map (matchAt i r2) (matchAt i r1 st))"
| "matchAt i (Alt r1 r2) st = matchAt i r1 st @ matchAt i r2 st"
| "matchAt i (Star r) (s, caps) =
     concat (map (matchAt i (Star r))
               (filter (\<lambda>st'. length (fst st') < length s) (matchAt i r (s, caps))))
     @ [(s, caps)]"
| "matchAt i (Group n r) (s, caps) =
     map (\<lambda>(rest, caps'). (rest, (n, take (length s - length rest) s) # caps'))
       (matchAt i r (s, caps))"
  by pat_completeness auto
termination
  by (relation "measures [\<lambda>(i, r, st). size r, \<lambda>(i, r, st). length (fst st)]") auto

fun execFrom :: "bool \<Rightarrow> regex \<Rightarrow> string \<Rightarrow> captures option" where
  "execFrom i r [] =
     (case matchAt i r ([], []) of [] \<Rightarrow> None | (rest, caps) # _ \<Rightarrow> Some caps)"
| "execFrom i r (c # cs) =
     (case matchAt i r (c # cs, []) of
        [] \<Rightarrow> execFrom i r cs
      | (rest, caps) # _ \<Rightarrow> Some caps)"

definition test :: "bool \<Rightarrow> regex \<Rightarrow> string \<Rightarrow> bool" where
  \<comment> \<open>\<^verbatim>\<open>pattern.test(s)\<close>\<close>
  "test i r s = (execFrom i r s \<noteq> None)"

definition testWhole :: "bool \<Rightarrow> regex \<Rightarrow> string \<Rightarrow> bool" where
  \<comment> \<open>\<^verbatim>\<open>/^r$/.test(s)\<close>: some way of matching \<open>r\<close> at the start consumes all of \<open>s\<close>\<close>
  "testWhole i r s = list_ex (\<lambda>st. fst st = []) (matchAt i r (s, []))"





fun lits :: "string \<Rightarrow> regex" where
  \<comment> \<open>a run of literal characters\<close>
  "lits [] = Star (OneOf [])"
| "lits [c] = Lit c"
| "lits (c # cs) = Seq (Lit c) (lits cs)"

fun repeat :: "nat \<Rightarrow> regex \<Rightarrow> regex" where
  \<comment> \<open>\<^verbatim>\<open>r{n}\<close>\<close>
  "repeat 0 r = Star (OneOf [])"
| "repeat (Suc 0) r = r"
| "repeat (Suc n) r = Seq r (repeat n r)"

definition anyThen :: "string \<Rightarrow> string \<Rightarrow> regex" where
  \<comment> \<open>\<^verbatim>\<open>a.*b\<close>\<close>
  "anyThen a b = Seq (lits a) (Seq (Star Dot) (lits b))"

section \<open>Option sanitizer and command validator (server/validation.ts)\<close>

text \<open>
  \<^verbatim>\<open>path.normalize\<close> belongs to Node's standard library, not to the repository, and its
  behaviour depends on the host (POSIX or Windows). The functions that call it take the
  normaliser as their first argument; \<open>posixNormalize\<close> follows the algorithm of
  \<^verbatim>\<open>path.posix.normalize\<close> and serves wherever a concrete path is evaluated.
\<close>

definition normalizeStep :: "bool \<Rightarrow> string list \<Rightarrow> string \<Rightarrow> string list" where
  "normalizeStep allowAboveRoot res seg =
     (if seg = [] \<or> seg = ''.'' then res
      else if seg = ''..'' then
        (if res \<noteq> [] \<and> last res \<noteq> ''..'' then butlast res
         else if allowAboveRoot then res @ [''..'']
         else res)
      else res @ [seg])"

definition normalizeString :: "bool \<Rightarrow> string \<Rightarrow> string" where
  "normalizeString allowAboveRoot p =
     join ''/'' (foldl (normalizeStep allowAboveRoot) [] (splitOn CHR ''/'' p))"

definition posixNormalize :: "string \<Rightarrow> string" where
  "posixNormalize p =
     (if p = [] then ''.''
      else
        (let isAbsolute = (hd p = CHR ''/'');
             trailingSeparator = (last p = CHR ''/'');
             q = normalizeString (\<not> isAbsolute) p
         in if q = [] then (if isAbsolute then ''/'' else if trailingSeparator then ''./'' else ''.'')
            else (if isAbsolute then ''/'' else []) @ q @ (if trailingSeparator then ''/'' else [])))"

fun sanitizeInput :: "jsval \<Rightarrow> jsval" where
  "sanitizeInput (JStr input) = JStr (trim input)"
| "sanitizeInput input = input"

definition hexDigit :: regex where
  \<comment> \<open>\<^verbatim>\<open>[0-9a-f]\<close>\<close>
  "hexDigit = OneOf ''0123456789abcdef''"

definition uuidRegex :: regex where
  \<comment> \<open>\<^verbatim>\<open>/^[0-9a-f]{8}-[0-9a-f]{4}-[0-9a-f]{4}-[0-9a-f]{4}-[0-9a-f]{12}$/i\<close>, between its anchors\<close>
  "uuidRegex =
     Seq (repeat 8 hexDigit) (Seq (Lit CHR ''-'')
    (Seq (repeat 4 hexDigit) (Seq (Lit CHR ''-'')
    (Seq (repeat 4 hexDigit) (Seq (Lit CHR ''-'')
    (Seq (repeat 4 hexDigit) (Seq (Lit CHR ''-'')
    (repeat 12 hexDigit))))))))"

fun validateEnvironmentId :: "jsval \<Rightarrow> bool" where
  "validateEnvironmentId (JStr envId) = (envId \<noteq> [] \<and> testWhole True uuidRegex (trim envId))"
| "validateEnvironmentId envId = False"

fun validateApiKey :: "jsval \<Rightarrow> nat \<Rightarrow> bool" where
  "validateApiKey (JStr apiKey) minLength = (apiKey \<noteq> [] \<and> length (trim apiKey) \<ge> minLength)"
| "validateApiKey apiKey minLength = False"

fun validateFilePath :: "(string \<Rightarrow> string) \<Rightarrow> jsval \<Rightarrow> nat \<Rightarrow> bool" where
  "validateFilePath normalizePath (JStr filePath) maxLength =
     (filePath \<noteq> [] \<and>
      (let normalized = normalizePath filePath
       in \<not> includesStr normalized ''..'' \<and> length normalized > 0 \<and> length normalized < maxLength))"
| "validateFilePath normalizePath filePath maxLength = False"

record ValidationResult =
  valid :: bool
  message :: "string option"

definition accepted :: ValidationResult where
  \<comment> \<open>\<^verbatim>\<open>{ valid: true }\<close>\<close>
  "accepted = \<lparr>valid = True, message = None\<rparr>"

definition rejected :: "string \<Rightarrow> ValidationResult" where
  \<comment> \<open>\<^verbatim>\<open>{ valid: false, message }\<close>\<close>
  "rejected m = \<lparr>valid = False, message = Some m\<rparr>"

definition missing :: "CommandOptions \<Rightarrow> string \<Rightarrow> bool" where
  \<comment> \<open>\<^verbatim>\<open>!options.key\<close>\<close>
  "missing options key = (\<not> truthy (getProp options key))"

definition noEntities :: "CommandOptions \<Rightarrow> bool" where
  \<comment> \<open>\<^verbatim>\<open>!options.entities || !Array.isArray(options.entities) || options.entities.length === 0\<close>\<close>
  "noEntities options =
     (case getProp options ''entities'' of
        JArr xs \<Rightarrow> xs = []
      | _ \<Rightarrow> True)"

definition outPathMissing :: "CommandOptions \<Rightarrow> bool" where
  \<comment> \<open>\<^verbatim>\<open>!options.outPath || (typeof options.outPath === 'string' && options.outPath.trim() === '')\<close>\<close>
  "outPathMissing options =
     (missing options ''outPath'' \<or>
      (case getProp options ''outPath'' of JStr p \<Rightarrow> trim p = [] | _ \<Rightarrow> False))"

definition commandPart :: "string \<Rightarrow> nat \<Rightarrow> string option" where
  \<comment> \<open>\<^verbatim>\<open>command.split(' ')[i]\<close>\<close>
  "commandPart command i = elemAt (splitOn CHR '' '' command) i"

definition validateCommandOptions :: "string \<Rightarrow> CommandOptions \<Rightarrow> ValidationResult" where
  "validateCommandOptions command options =
     (let mainCommand = commandPart command 0;
          subCommand = commandPart command 1
      in
      if mainCommand = Some ''environment'' then
        (if subCommand = Some ''backup'' then
           (if missing options ''environmentId'' \<or> missing options ''apiKey''
            then rejected ''environmentId and apiKey are required for environment backup''
            else accepted)
         else if subCommand = Some ''restore'' then
           (if missing options ''environmentId'' \<or> missing options ''apiKey'' \<or> missing options ''fileName''
            then rejected ''environmentId, apiKey, and fileName are required for environment restore''
            else accepted)
         else if subCommand = Some ''clean'' then
           (if missing options ''environmentId'' \<or> missing options ''apiKey''
            then rejected ''environmentId and apiKey are required for environment clean''
            else accepted)
         else accepted)
      else if mainCommand = Some ''sync'' then
        (if subCommand = Some ''run'' then
           (if missing options ''targetEnvironmentId'' \<or> missing options ''targetApiKey'' \<or> noEntities options
            then rejected ''targetEnvironmentId, targetApiKey, and entities are required for sync run''
            else if missing options ''sourceEnvironmentId'' \<and> missing options ''folderName''
            then rejected ''Either sourceEnvironmentId+sourceApiKey or folderName is required for sync run''
            else if \<not> missing options ''sourceEnvironmentId'' \<and> missing options ''sourceApiKey''
            then rejected ''sourceApiKey is required when using sourceEnvironmentId''
            else accepted)
         else if subCommand = Some ''snapshot'' then
           (if missing options ''environmentId'' \<or> missing options ''apiKey'' \<or> noEntities options
            then rejected ''environmentId, apiKey, and entities are required for sync snapshot''
            else accepted)
         else if subCommand = Some ''diff'' then
           (if missing options ''targetEnvironmentId'' \<or> missing options ''targetApiKey''
            then rejected ''targetEnvironmentId and targetApiKey are required for sync diff''
            else if missing options ''sourceEnvironmentId'' \<and> missing options ''folderName''
            then rejected ''Either sourceEnvironmentId+sourceApiKey or folderName is required for sync diff''
            else if \<not> missing options ''sourceEnvironmentId'' \<and> missing options ''sourceApiKey''
            then rejected ''sourceApiKey is required when using sourceEnvironmentId''
            else if truthy (getProp options ''advanced'') \<and> outPathMissing options
            then rejected ''outPath is required when advanced option is enabled''
            else accepted)
         else accepted)
      else if mainCommand = Some ''migrate-content'' \<or> mainCommand = Some ''migrations'' then accepted
      else rejected (''Unknown command: '' @ command))"

definition keyHas :: "string \<Rightarrow> string \<Rightarrow> bool" where
  \<comment> \<open>\<^verbatim>\<open>key.toLowerCase().includes(word)\<close>\<close>
  "keyHas key word = includesStr (toLowerCase key) word"

definition isEnvironmentIdKey :: "string \<Rightarrow> bool" where
  "isEnvironmentIdKey key = (keyHas key ''environmentid'' \<or> keyHas key ''environment_id'')"

definition isApiKeyKey :: "string \<Rightarrow> bool" where
  "isApiKeyKey key = (keyHas key ''apikey'' \<or> keyHas key ''api_key'')"

definition isFilePathKey :: "string \<Rightarrow> bool" where
  "isFilePathKey key =
     (keyHas key ''filename'' \<or> keyHas key ''file_name'' \<or> keyHas key ''outpath'' \<or> keyHas key ''folder'')"

definition fieldErrors :: "(string \<Rightarrow> string) \<Rightarrow> string \<Rightarrow> jsval \<Rightarrow> string list" where
  \<comment> \<open>the messages one pass of the loop body pushes for a key that is not internal\<close>
  "fieldErrors normalizePath key value =
     (if isEnvironmentIdKey key \<and> truthy value \<and> \<not> validateEnvironmentId value
      then [key @ '' must be a valid UUID format''] else [])
     @ (if isApiKeyKey key \<and> truthy value \<and> \<not> validateApiKey value 10
        then [key @ '' appears to be invalid''] else [])
     @ (if isFilePathKey key \<and> truthy value \<and> \<not> validateFilePath normalizePath value 500
        then [key @ '' contains invalid characters or path traversal attempt''] else [])"

fun sanitizeLoop ::
  "(string \<Rightarrow> string) \<Rightarrow> CommandOptions \<Rightarrow> CommandOptions \<times> string list
     \<Rightarrow> CommandOptions \<times> string list" where
  \<comment> \<open>the \<^verbatim>\<open>for (const [key, value] of Object.entries(options))\<close> loop over
      \<^verbatim>\<open>sanitized\<close> and \<^verbatim>\<open>errors\<close>\<close>
  "sanitizeLoop normalizePath [] acc = acc"
| "sanitizeLoop normalizePath ((key, value) # rest) (sanitized, errors) =
     (if startsWith key ''_'' then
        sanitizeLoop normalizePath rest (setProp sanitized key value, errors)
      else
        sanitizeLoop normalizePath rest
          (setProp sanitized key (sanitizeInput value), errors @ fieldErrors normalizePath key value))"

datatype jsError = Error (errMessage: string) (errCode: "string option")

definition validateAndSanitizeOptions ::
  "(string \<Rightarrow> string) \<Rightarrow> string \<Rightarrow> CommandOptions \<Rightarrow> jsError + CommandOptions" where
  \<comment> \<open>\<open>Inl\<close> is the thrown \<^verbatim>\<open>Error\<close>\<close>
  "validateAndSanitizeOptions normalizePath command options =
     (case sanitizeLoop normalizePath options ([], []) of
        (sanitized, errors) \<Rightarrow>
          if length errors > 0
          then Inl (Error (''Validation errors: '' @ join '', '' errors) None)
          else Inr sanitized)"

definition syncOptions :: "jsval \<Rightarrow> jsval \<Rightarrow> jsval \<Rightarrow> CommandOptions" where
  \<comment> \<open>a sample option mapping for the sync commands: the target options and an entity
      list, with the three source options as given\<close>
  "syncOptions sourceId sourceKey folder =
     [(''targetEnvironmentId'', JStr ''123e4567-e89b-12d3-a456-426614174000''),
      (''targetApiKey'', JStr ''aaaaaaaaaaaaaaaaaaaa''),
      (''entities'', JArr [JStr ''contentTypes'']),
      (''sourceEnvironmentId'', sourceId),
      (''sourceApiKey'', sourceKey),
      (''folderName'', folder)]"

section \<open>Argument builder (server/commands.ts)\<close>

definition kebabCase :: "string \<Rightarrow> string" where
  \<comment> \<open>\<^verbatim>\<open>key.replace(/([A-Z])/g, '-$1').toLowerCase()\<close>\<close>
  "kebabCase key =
     toLowerCase (concat (map (\<lambda>c. if c \<in> set asciiUpper then [CHR ''-'', c] else [c]) key))"

definition flag :: "string \<Rightarrow> string" where
  \<comment> \<open>\<^verbatim>\<open>`--${kebabKey}`\<close>\<close>
  "flag key = ''--'' @ kebabCase key"

definition optionArgs :: "string \<Rightarrow> jsval \<Rightarrow> string list" where
  \<comment> \<open>what one call of the \<^verbatim>\<open>forEach\<close> callback pushes onto \<^verbatim>\<open>args\<close>\<close>
  "optionArgs key value =
     (if value \<noteq> JNull \<and> value \<noteq> JUndefined \<and> value \<noteq> JStr [] then
        (if startsWith key ''_'' then []
         else
           (case value of
              JBool b \<Rightarrow> if b then [flag key] else []
            | JArr vs \<Rightarrow> concat (map (\<lambda>v. [flag key, String_js v]) vs)
            | JObj fs \<Rightarrow> []
            | _ \<Rightarrow> [flag key, String_js value]))
      else [])"

definition buildDataOpsArgs :: "string \<Rightarrow> CommandOptions \<Rightarrow> string list" where
  "buildDataOpsArgs command options =
     splitOn CHR '' '' command @ concat (map (\<lambda>(key, value). optionArgs key value) options)"

definition kebabInternal :: "string \<Rightarrow> string" where
  \<comment> \<open>The kebab form in the words of the specification: each internal (not leading)
      uppercase letter becomes a hyphen followed by its lowercase form.\<close>
  "kebabInternal key =
     (case key of
        [] \<Rightarrow> []
      | c # cs \<Rightarrow>
          c # concat (map (\<lambda>x. if x \<in> set (asciiUpper @ latinUpper)
                                  then [CHR ''-'', toLowerChar x] else [x]) cs))"

section \<open>Executor (server/executor.ts)\<close>

definition cliNotFound :: "string \<Rightarrow> string" where
  "cliNotFound cliPath =
     ''Data-ops CLI not found at '' @ cliPath @ ''. ''
     @ ''Please ensure the data-ops repository is built. Run: cd data-ops && npm run build''"

definition executeBody ::
  "(string \<Rightarrow> string) \<Rightarrow> string \<Rightarrow> bool \<Rightarrow> string \<Rightarrow> CommandOptions \<Rightarrow> jsError + string list" where
  \<comment> \<open>The \<^verbatim>\<open>try\<close> block. \<open>cliAccessible\<close> says whether \<^verbatim>\<open>fs.access(DATA_OPS_CLI)\<close>
      succeeds; \<open>Inr\<close> carries the argument vector handed to \<^verbatim>\<open>execa('node', ...)\<close>, the one
      place where a child process is created.\<close>
  "executeBody normalizePath cliPath cliAccessible command options =
     (case validateAndSanitizeOptions normalizePath command options of
        Inl err \<Rightarrow> Inl err
      | Inr sanitizedOptions \<Rightarrow>
          (let validation = validateCommandOptions command sanitizedOptions
           in if \<not> valid validation then
                Inl (Error (case message validation of
                              None \<Rightarrow> ''Invalid command options''
                            | Some m \<Rightarrow> if m = [] then ''Invalid command options'' else m) None)
              else if \<not> cliAccessible then Inl (Error (cliNotFound cliPath) None)
              else Inr (cliPath # buildDataOpsArgs command sanitizedOptions)))"

definition executeDataOpsCommand ::
  "(string \<Rightarrow> string) \<Rightarrow> string \<Rightarrow> bool \<Rightarrow> string \<Rightarrow> CommandOptions \<Rightarrow> jsError + string list" where
  \<comment> \<open>The \<^verbatim>\<open>try\<close> block followed by the \<^verbatim>\<open>catch\<close> block, which rethrows. \<open>Inr\<close> is
      the \<^verbatim>\<open>return childProcess\<close> of the function; what its caller receives from the
      returned promise is settled by the child process (see \<open>childSettled\<close>).\<close>
  "executeDataOpsCommand normalizePath cliPath cliAccessible command options =
     (case executeBody normalizePath cliPath cliAccessible command options of
        Inr argv \<Rightarrow> Inr argv
      | Inl err \<Rightarrow>
          if errCode err = Some ''ENOENT'' \<or> includesStr (errMessage err) ''not found''
          then Inl (Error (cliNotFound cliPath) None)
          else if errCode err = Some ''ETIMEDOUT''
          then Inl (Error ''Command execution timed out. The operation may be taking longer than expected.'' None)
          else Inl err)"

section \<open>Error texts (server/errors.ts)\<close>

definition getErrorSolution :: "jsError \<Rightarrow> string" where
  "getErrorSolution error =
     (let errorMessage = errMessage error
      in if includesStr errorMessage ''not found'' \<or> includesStr errorMessage ''ENOENT'' then
           ''Please ensure the data-ops CLI is installed and accessible in your PATH, or set the DATA_OPS_CLI_PATH environment variable.''
         else if includesStr errorMessage ''required'' then
           ''Please ensure all required fields are filled in correctly.''
         else if includesStr errorMessage ''permission'' then
           ''Please check file permissions and ensure you have the necessary access rights.''
         else
           ''Please check the error message and try again. If the issue persists, review the logs for more details.'')"

section \<open>Execute endpoint and stream relay (server/routes.ts)\<close>

definition declaredCommands :: "string list" where
  \<comment> \<open>the command names that are the keys of the table \<^verbatim>\<open>getCommands()\<close> returns\<close>
  "declaredCommands =
     [''environment backup'', ''environment restore'', ''environment clean'',
      ''sync run'', ''sync snapshot'', ''sync diff'']"

datatype StreamMessage =
    Connected string
  | Progress nat string string
  | Output string string
  | Complete bool string
  | ErrorEvent string "string option"

text \<open>
  \<open>Progress percent message stage\<close>, \<open>Output level message\<close>, \<open>Complete success message\<close>,
  \<open>ErrorEvent message solution\<close>. Each message written to the response is one
  \<^verbatim>\<open>data: <json>\<close> frame of the event stream.
\<close>

record relay =
  written :: "StreamMessage list"
  ended :: bool
  lastProgressUpdate :: int
  killed :: bool

definition resWrite :: "StreamMessage \<Rightarrow> relay \<Rightarrow> relay" where
  \<comment> \<open>\<^verbatim>\<open>res.write(...)\<close>; nothing reaches the caller once the response has ended\<close>
  "resWrite msg r = (if ended r then r else r\<lparr>written := written r @ [msg]\<rparr>)"

definition endResponse :: "relay \<Rightarrow> relay" where
  \<comment> \<open>\<^verbatim>\<open>res.end()\<close>\<close>
  "endResponse r = r\<lparr>ended := True\<rparr>"

record ProgressStage =
  pattern :: regex
  percent :: nat
  stage :: string

definition progressStages :: "(string \<times> ProgressStage list) list" where
  \<comment> \<open>every pattern of the table carries the \<^verbatim>\<open>i\<close> flag\<close>
  "progressStages =
     [(''environment backup'',
        [\<lparr>pattern = Alt (lits ''backing up'') (lits ''starting backup''), percent = 10, stage = ''Starting backup...''\<rparr>,
         \<lparr>pattern = Alt (anyThen ''fetching'' ''content'') (lits ''retrieving''), percent = 30, stage = ''Fetching content...''\<rparr>,
         \<lparr>pattern = Alt (anyThen ''processing'' ''assets'') (anyThen ''downloading'' ''assets''), percent = 50, stage = ''Processing assets...''\<rparr>,
         \<lparr>pattern = Alt (anyThen ''creating'' ''zip'') (lits ''compressing''), percent = 80, stage = ''Creating backup file...''\<rparr>,
         \<lparr>pattern = Alt (anyThen ''backup'' ''complete'') (lits ''finished''), percent = 100, stage = ''Backup complete!''\<rparr>]),
      (''environment restore'',
        [\<lparr>pattern = Alt (lits ''restoring'') (lits ''starting restore''), percent = 10, stage = ''Starting restore...''\<rparr>,
         \<lparr>pattern = Alt (lits ''extracting'') (lits ''unzipping''), percent = 20, stage = ''Extracting backup...''\<rparr>,
         \<lparr>pattern = Alt (lits ''uploading'') (lits ''importing''), percent = 50, stage = ''Importing data...''\<rparr>,
         \<lparr>pattern = Alt (anyThen ''restore'' ''complete'') (lits ''finished''), percent = 100, stage = ''Restore complete!''\<rparr>]),
      (''sync run'',
        [\<lparr>pattern = Alt (lits ''syncing'') (lits ''starting sync''), percent = 10, stage = ''Starting sync...''\<rparr>,
         \<lparr>pattern = Alt (lits ''comparing'') (lits ''analyzing''), percent = 30, stage = ''Comparing environments...''\<rparr>,
         \<lparr>pattern = Alt (anyThen ''applying'' ''changes'') (lits ''updating''), percent = 60, stage = ''Applying changes...''\<rparr>,
         \<lparr>pattern = Alt (anyThen ''sync'' ''complete'') (lits ''finished''), percent = 100, stage = ''Sync complete!''\<rparr>])]"

definition commandStages :: "string \<Rightarrow> ProgressStage list" where
  \<comment> \<open>\<^verbatim>\<open>progressStages[command] || []\<close>\<close>
  "commandStages command = (case map_of progressStages command of None \<Rightarrow> [] | Some stages \<Rightarrow> stages)"

definition outputLines :: "string \<Rightarrow> string list" where
  \<comment> \<open>\<^verbatim>\<open>output.split('\n').filter(line => line.trim())\<close>\<close>
  "outputLines output = filter (\<lambda>line. trim line \<noteq> []) (splitOn CHR 0x0A output)"

fun stageLoop :: "ProgressStage list \<Rightarrow> int \<Rightarrow> string \<Rightarrow> relay \<Rightarrow> relay" where
  \<comment> \<open>\<^verbatim>\<open>for (const stage of commandStages)\<close>, left by \<^verbatim>\<open>break\<close> after the first progress
      message; \<open>now\<close> is the reading of \<^verbatim>\<open>Date.now()\<close> while the chunk is handled\<close>
  "stageLoop [] now line r = r"
| "stageLoop (st # rest) now line r =
     (if test True (pattern st) line \<and> now - lastProgressUpdate r > 500
      then (resWrite (Progress (percent st) line (stage st)) r)\<lparr>lastProgressUpdate := now\<rparr>
      else stageLoop rest now line r)"

definition onStdoutLine :: "string \<Rightarrow> int \<Rightarrow> relay \<Rightarrow> string \<Rightarrow> relay" where
  "onStdoutLine command now r line =
     resWrite (Output ''info'' line) (stageLoop (commandStages command) now line r)"

definition onStdoutData :: "string \<Rightarrow> int \<Rightarrow> string \<Rightarrow> relay \<Rightarrow> relay" where
  "onStdoutData command now output r = foldl (onStdoutLine command now) r (outputLines output)"

definition onStderrData :: "string \<Rightarrow> relay \<Rightarrow> relay" where
  "onStderrData output r = foldl (\<lambda>r' line. resWrite (Output ''error'' line) r') r (outputLines output)"

definition exitCodeText :: "int option \<Rightarrow> string" where
  \<comment> \<open>\<^verbatim>\<open>`${code}`\<close> for \<^verbatim>\<open>code: number | null\<close>\<close>
  "exitCodeText code = (case code of None \<Rightarrow> ''null'' | Some c \<Rightarrow> showInt c)"

definition completeMsg :: "int option \<Rightarrow> StreamMessage" where
  \<comment> \<open>the \<^verbatim>\<open>completeMsg\<close> of the two branches of the \<^verbatim>\<open>close\<close> listener\<close>
  "completeMsg code =
     (if code = Some 0 then Complete True ''Command completed successfully''
      else Complete False (''Command exited with code '' @ exitCodeText code))"

definition onClose :: "int option \<Rightarrow> relay \<Rightarrow> relay" where
  "onClose code r = endResponse (resWrite (completeMsg code) r)"

definition onError :: "string \<Rightarrow> relay \<Rightarrow> relay" where
  "onError errorMessage r = endResponse (resWrite (ErrorEvent errorMessage None) r)"

definition onRequestClose :: "relay \<Rightarrow> relay" where
  \<comment> \<open>\<^verbatim>\<open>if (!cp.killed) cp.kill('SIGTERM')\<close>\<close>
  "onRequestClose r = (if \<not> killed r then r\<lparr>killed := True\<rparr> else r)"

datatype childEvent =
    StdoutData int string
  | StderrData string
  | Close "int option"
  | ChildError string
  | RequestClose

fun relayStep :: "string \<Rightarrow> relay \<Rightarrow> childEvent \<Rightarrow> relay" where
  \<comment> \<open>the listener closures the route holds for the events of a child process and of the
      request\<close>
  "relayStep command r (StdoutData now output) = onStdoutData command now output r"
| "relayStep command r (StderrData output) = onStderrData output r"
| "relayStep command r (Close code) = onClose code r"
| "relayStep command r (ChildError errorMessage) = onError errorMessage r"
| "relayStep command r RequestClose = onRequestClose r"

definition relayRun :: "string \<Rightarrow> relay \<Rightarrow> childEvent list \<Rightarrow> relay" where
  "relayRun command r evs = foldl (relayStep command) r evs"

fun isOutputEvent :: "childEvent \<Rightarrow> bool" where
  "isOutputEvent (StdoutData now output) = True"
| "isOutputEvent (StderrData output) = True"
| "isOutputEvent ev = False"

fun isComplete :: "StreamMessage \<Rightarrow> bool" where
  "isComplete (Complete success msg) = True"
| "isComplete msg = False"

fun isErrorEvent :: "StreamMessage \<Rightarrow> bool" where
  "isErrorEvent (ErrorEvent msg solution) = True"
| "isErrorEvent msg = False"

datatype httpReply =
    JsonReply nat string string
  | EventStream relay

text \<open>
  \<open>JsonReply status error solution\<close> is \<^verbatim>\<open>res.status(status).json({error, solution})\<close>, the
  whole response at once; \<open>EventStream\<close> is the event-stream response, with what the
  handler has written to it.
\<close>

datatype childSettled =
    ChildResolved
  | ChildRejected jsError

text \<open>
  The child process \<^verbatim>\<open>execa\<close> returns is also a promise. \<^verbatim>\<open>executeDataOpsCommand\<close> is
  an \<^verbatim>\<open>async\<close> function that returns it, so the promise of the function adopts it, and
  the \<^verbatim>\<open>await\<close> of the route resumes only when the child process has ended:
  \<open>ChildResolved\<close> when it exited with code 0 (the \<^verbatim>\<open>await\<close> yields the result object
  of \<^verbatim>\<open>execa\<close>, whose \<^verbatim>\<open>stdout\<close> and \<^verbatim>\<open>stderr\<close> are no streams and which has no method
  \<^verbatim>\<open>on\<close>), \<open>ChildRejected\<close> with the error of \<^verbatim>\<open>execa\<close> otherwise (a nonzero exit code,
  a signal, the timeout, a failure to spawn; the \<^verbatim>\<open>await\<close> throws it). The rejection
  does not pass through the \<^verbatim>\<open>catch\<close> block of \<^verbatim>\<open>executeDataOpsCommand\<close>, which has
  returned by then.
\<close>

record executeOutcome =
  reply :: httpReply
  spawnCalls :: "string list list"

definition connected :: relay where
  \<comment> \<open>the response right after the initial connection message\<close>
  "connected = \<lparr>written = [Connected ''Connected to command stream''], ended = False,
                 lastProgressUpdate = 0, killed = False\<rparr>"

definition catchTexts :: "jsError \<Rightarrow> string \<times> string" where
  \<comment> \<open>\<^verbatim>\<open>errorMessage\<close> and \<^verbatim>\<open>solution\<close> as the \<^verbatim>\<open>catch\<close> block of the route computes
      them\<close>
  "catchTexts err =
     (let errorMessage = (if errMessage err = [] then ''Failed to execute command'' else errMessage err);
          solution = getErrorSolution err
      in if errMessage err \<noteq> [] \<and> includesStr (errMessage err) ''Validation errors'' then
           (errMessage err, ''Please correct the validation errors and try again.'')
         else if errMessage err \<noteq> [] \<and> includesStr (errMessage err) ''not found'' then
           (''Data-ops CLI not found'',
            ''Please ensure the data-ops repository is built. Run: cd data-ops && npm run build'')
         else if errCode err = Some ''ETIMEDOUT'' then
           (''Command execution timed out'',
            ''The operation is taking longer than expected. Please try again or check if the operation completed.'')
         else (errorMessage, solution))"

definition executeCatch :: "jsError \<Rightarrow> httpReply" where
  \<comment> \<open>The \<^verbatim>\<open>catch\<close> block of the route for an error thrown before any header was sent
      (\<^verbatim>\<open>res.headersSent\<close> is false).\<close>
  "executeCatch err = JsonReply 500 (fst (catchTexts err)) (snd (catchTexts err))"

definition streamCatch :: "jsError \<Rightarrow> relay \<Rightarrow> relay" where
  \<comment> \<open>The \<^verbatim>\<open>catch\<close> block of the route for an error thrown after the first
      \<^verbatim>\<open>res.write\<close> (\<^verbatim>\<open>res.headersSent\<close> is true): an error message on the stream, and
      \<^verbatim>\<open>res.end()\<close>.\<close>
  "streamCatch err r =
     endResponse (resWrite (ErrorEvent (fst (catchTexts err)) (Some (snd (catchTexts err)))) r)"

definition cpOnTypeError :: jsError where
  \<comment> \<open>the \<^verbatim>\<open>TypeError\<close> of the call \<^verbatim>\<open>cp.on('close', ...)\<close> on the result object of
      \<^verbatim>\<open>execa\<close>, with the message text of V8\<close>
  "cpOnTypeError = Error ''cp.on is not a function'' None"

definition isObjectLike :: "jsval \<Rightarrow> bool" where
  \<comment> \<open>\<^verbatim>\<open>typeof v === 'object'\<close>\<close>
  "isObjectLike v = (case v of JNull \<Rightarrow> True | JArr xs \<Rightarrow> True | JObj fs \<Rightarrow> True | _ \<Rightarrow> False)"

definition requestOptions :: "jsval \<Rightarrow> CommandOptions" where
  \<comment> \<open>the entries of \<^verbatim>\<open>options || {}\<close>\<close>
  "requestOptions options = (if truthy options then entries options else [])"

definition postExecute ::
  "(string \<Rightarrow> string) \<Rightarrow> string \<Rightarrow> bool \<Rightarrow> childSettled \<Rightarrow> jsval \<Rightarrow> jsval \<Rightarrow> executeOutcome" where
  \<comment> \<open>The handler of \<^verbatim>\<open>POST /api/execute\<close> for the request body \<^verbatim>\<open>{command, options}\<close>;
      \<open>child\<close> says how the child process, once created, ends. After the connection
      message the two stream guards fail on the result object and \<^verbatim>\<open>cp.on\<close> throws, so
      no listener is ever registered.\<close>
  "postExecute normalizePath cliPath cliAccessible child command options =
     (case command of
        JStr cmd \<Rightarrow>
          if cmd = [] then
            \<lparr>reply = JsonReply 400 ''Command is required'' ''Please select a command to execute'',
             spawnCalls = []\<rparr>
          else if length (splitOn CHR '' '' cmd) < 2 \<or> length (splitOn CHR '' '' cmd) > 3 then
            \<lparr>reply = JsonReply 400 ''Invalid command format''
                       ''Command must be in the format: <command> <subcommand>'',
             spawnCalls = []\<rparr>
          else if truthy options \<and> \<not> isObjectLike options then
            \<lparr>reply = JsonReply 400 ''Invalid options format'' ''Options must be an object'',
             spawnCalls = []\<rparr>
          else
            (case executeDataOpsCommand normalizePath cliPath cliAccessible cmd
                    (requestOptions options) of
               Inl err \<Rightarrow> \<lparr>reply = executeCatch err, spawnCalls = []\<rparr>
             | Inr argv \<Rightarrow>
                 (case child of
                    ChildRejected err \<Rightarrow>
                      \<lparr>reply = executeCatch err, spawnCalls = [''node'' # argv]\<rparr>
                  | ChildResolved \<Rightarrow>
                      \<lparr>reply = EventStream (streamCatch cpOnTypeError connected),
                       spawnCalls = [''node'' # argv]\<rparr>))
      | _ \<Rightarrow>
          \<lparr>reply = JsonReply 400 ''Command is required'' ''Please select a command to execute'',
           spawnCalls = []\<rparr>)"

definition streamed :: "executeOutcome \<Rightarrow> StreamMessage list" where
  \<comment> \<open>the streaming events the handler has emitted when it returns\<close>
  "streamed out = (case reply out of JsonReply status err solution \<Rightarrow> [] | EventStream r \<Rightarrow> written r)"

fun benign :: "StreamMessage \<Rightarrow> bool" where
  \<comment> \<open>neither a completion nor an error message\<close>
  "benign (Complete success msg) = False"
| "benign (ErrorEvent msg solution) = False"
| "benign msg = True"

fun withinHundred :: "StreamMessage \<Rightarrow> bool" where
  \<comment> \<open>a progress message carries a percent of at most 100\<close>
  "withinHundred (Progress p msg st) = (p \<le> 100)"
| "withinHundred msg = True"

section \<open>Progress classifier (frontend/app-frontend.js)\<close>














section \<open>Rate limiter (server/rateLimit.ts)\<close>

text \<open>
  The module keeps one process-wide \<^verbatim>\<open>Map<string, number[]>\<close> from a client address to
  the timestamps (milliseconds, \<^verbatim>\<open>Date.now()\<close>) of its admitted requests. The model passes
  the map and the clock reading explicitly and returns the map after the call.
\<close>

type_synonym rateLimitMap = "string \<rightharpoonup> int list"

definition RATE_LIMIT_WINDOW :: int where
  "RATE_LIMIT_WINDOW = 60000"

definition RATE_LIMIT_MAX_REQUESTS :: nat where
  "RATE_LIMIT_MAX_REQUESTS = 30"

definition userRequests :: "rateLimitMap \<Rightarrow> string \<Rightarrow> int list" where
  \<comment> \<open>\<^verbatim>\<open>rateLimitMap.get(ip) || []\<close>\<close>
  "userRequests m ip = (case m ip of None \<Rightarrow> [] | Some ts \<Rightarrow> ts)"

definition recentRequests :: "int \<Rightarrow> int \<Rightarrow> int list \<Rightarrow> int list" where
  \<comment> \<open>\<^verbatim>\<open>userRequests.filter(timestamp => now - timestamp < RATE_LIMIT_WINDOW)\<close>\<close>
  "recentRequests window now ts = filter (\<lambda>timestamp. now - timestamp < window) ts"

definition checkRateLimitWith ::
  "int \<Rightarrow> nat \<Rightarrow> int \<Rightarrow> string \<Rightarrow> rateLimitMap \<Rightarrow> bool \<times> rateLimitMap" where
  \<comment> \<open>The body of \<^verbatim>\<open>checkRateLimit\<close>, with the two module constants as parameters.\<close>
  "checkRateLimitWith window maxRequests now ip m =
     (let recent = recentRequests window now (userRequests m ip)
      in if length recent \<ge> maxRequests then (False, m)
         else (True, m(ip \<mapsto> recent @ [now])))"

definition checkRateLimit :: "int \<Rightarrow> string \<Rightarrow> rateLimitMap \<Rightarrow> bool \<times> rateLimitMap" where
  "checkRateLimit = checkRateLimitWith RATE_LIMIT_WINDOW RATE_LIMIT_MAX_REQUESTS"

fun admitAll :: "int \<Rightarrow> nat \<Rightarrow> string \<Rightarrow> rateLimitMap \<Rightarrow> int list \<Rightarrow> bool list" where
  \<comment> \<open>Successive calls of the check by one client, at the given clock readings.\<close>
  "admitAll window maxRequests ip m [] = []"
| "admitAll window maxRequests ip m (now # later) =
     (case checkRateLimitWith window maxRequests now ip m of
        (ok, m') \<Rightarrow> ok # admitAll window maxRequests ip m' later)"

section \<open>Properties of the command validator\<close>

lemma splitOn_not_Nil: "splitOn sep s \<noteq> []"
  by (induction s) (auto split: list.splits)

lemma commandPart_0: "commandPart command 0 = Some (hd (splitOn CHR '' '' command))"
  using splitOn_not_Nil [of "CHR '' ''" command]
  by (cases "splitOn CHR '' '' command") (simp_all add: commandPart_def elemAt_def)

lemma parts_sync_run: "splitOn CHR '' '' ''sync run'' = [''sync'', ''run'']"
  by code_simp

lemma parts_sync_diff: "splitOn CHR '' '' ''sync diff'' = [''sync'', ''diff'']"
  by code_simp

lemma validate_sync_run:
  "validateCommandOptions ''sync run'' options =
     (if missing options ''targetEnvironmentId'' \<or> missing options ''targetApiKey'' \<or> noEntities options
      then rejected ''targetEnvironmentId, targetApiKey, and entities are required for sync run''
      else if missing options ''sourceEnvironmentId'' \<and> missing options ''folderName''
      then rejected ''Either sourceEnvironmentId+sourceApiKey or folderName is required for sync run''
      else if \<not> missing options ''sourceEnvironmentId'' \<and> missing options ''sourceApiKey''
      then rejected ''sourceApiKey is required when using sourceEnvironmentId''
      else accepted)"
  by (simp add: validateCommandOptions_def commandPart_def parts_sync_run elemAt_def)

lemma validate_sync_diff:
  "validateCommandOptions ''sync diff'' options =
     (if missing options ''targetEnvironmentId'' \<or> missing options ''targetApiKey''
      then rejected ''targetEnvironmentId and targetApiKey are required for sync diff''
      else if missing options ''sourceEnvironmentId'' \<and> missing options ''folderName''
      then rejected ''Either sourceEnvironmentId+sourceApiKey or folderName is required for sync diff''
      else if \<not> missing options ''sourceEnvironmentId'' \<and> missing options ''sourceApiKey''
      then rejected ''sourceApiKey is required when using sourceEnvironmentId''
      else if truthy (getProp options ''advanced'') \<and> outPathMissing options
      then rejected ''outPath is required when advanced option is enabled''
      else accepted)"
  by (simp add: validateCommandOptions_def commandPart_def parts_sync_diff elemAt_def)

text \<open>
  Claim C5, as amended. A command whose first word is none of \<^verbatim>\<open>environment\<close>,
  \<^verbatim>\<open>sync\<close>, \<^verbatim>\<open>migrate-content\<close>, \<^verbatim>\<open>migrations\<close> is rejected with the message
  \<^verbatim>\<open>Unknown command: <command>\<close>; a command whose first word is \<^verbatim>\<open>migrate-content\<close> or
  \<^verbatim>\<open>migrations\<close> is accepted whatever follows and whatever the options are.
\<close>

theorem unknown_main_command_rejected:
  "(commandPart command 0 \<notin> Some ` {''environment'', ''sync'', ''migrate-content'', ''migrations''} \<longrightarrow>
      validateCommandOptions command options = rejected (''Unknown command: '' @ command))
   \<and> (commandPart command 0 \<in> Some ` {''migrate-content'', ''migrations''} \<longrightarrow>
      validateCommandOptions command options = accepted)"
proof (intro conjI impI)
  assume h: "commandPart command 0 \<notin> Some ` {''environment'', ''sync'', ''migrate-content'', ''migrations''}"
  have n1: "commandPart command 0 \<noteq> Some ''environment''" using h by blast
  have n2: "commandPart command 0 \<noteq> Some ''sync''" using h by blast
  have n3: "commandPart command 0 \<noteq> Some ''migrate-content''" using h by blast
  have n4: "commandPart command 0 \<noteq> Some ''migrations''" using h by blast
  show "validateCommandOptions command options = rejected (''Unknown command: '' @ command)"
    unfolding validateCommandOptions_def Let_def using n1 n2 n3 n4 by simp
next
  assume h: "commandPart command 0 \<in> Some ` {''migrate-content'', ''migrations''}"
  then consider "commandPart command 0 = Some ''migrate-content''" | "commandPart command 0 = Some ''migrations''"
    by blast
  then show "validateCommandOptions command options = accepted"
  proof cases
    case 1
    then show ?thesis unfolding validateCommandOptions_def Let_def by simp
  next
    case 2
    then show ?thesis unfolding validateCommandOptions_def Let_def by simp
  qed
qed

theorem unknown_main_command_rejected_witness:
  "validateCommandOptions ''deploy now'' [] = rejected ''Unknown command: deploy now''
   \<and> validateCommandOptions ''migrations run'' [] = accepted"
proof -
  have a: "commandPart ''deploy now'' 0 = Some ''deploy''" by code_simp
  have b: "commandPart ''migrations run'' 0 = Some ''migrations''" by code_simp
  from unknown_main_command_rejected [of "''deploy now''" "[]"] a
  have c: "validateCommandOptions ''deploy now'' [] = rejected (''Unknown command: '' @ ''deploy now'')"
    by simp
  from unknown_main_command_rejected [of "''migrations run''" "[]"] b
  have d: "validateCommandOptions ''migrations run'' [] = accepted"
    by simp
  from c d show ?thesis by simp
qed

text \<open>
  The claim as stated fails: \<^verbatim>\<open>migrate-content run\<close> is not a declared command, and the
  validator accepts it.
\<close>

theorem undeclared_command_accepted:
  "''migrate-content run'' \<notin> set declaredCommands
   \<and> valid (validateCommandOptions ''migrate-content run'' [])"
  by code_simp

lemma valid_accepted: "valid accepted"
  by (simp add: accepted_def)

lemma valid_rejected: "\<not> valid (rejected m)"
  by (simp add: rejected_def)

lemma source_rule:
  assumes v: "v = (if noId \<and> noFolder then rejected m1
                   else if \<not> noId \<and> noKey then rejected m2
                   else accepted)"
  shows "(valid v \<longleftrightarrow> (\<not> noId \<and> \<not> noKey) \<or> (noId \<and> \<not> noFolder))
       \<and> (noId \<and> noFolder \<longrightarrow> \<not> valid v)
       \<and> (\<not> noId \<and> noKey \<longrightarrow> v = rejected m2)"
  unfolding v by (cases noId; cases noKey; cases noFolder) (simp_all add: valid_accepted valid_rejected)

text \<open>
  Claim C6, as amended. For \<^verbatim>\<open>sync run\<close> and \<^verbatim>\<open>sync diff\<close> with the target options
  present (and, for \<^verbatim>\<open>sync diff\<close>, with the output path given whenever the advanced
  option is on), the validator accepts exactly the mappings that give the source
  environment with its key (with or without a folder) or a folder without a source
  environment; it rejects the mapping with neither, and it rejects a source environment
  without its key, naming the key.
\<close>

theorem sync_source_shapes:
  assumes cmd: "command = ''sync run'' \<or> command = ''sync diff''"
    and target: "\<not> missing options ''targetEnvironmentId''" "\<not> missing options ''targetApiKey''"
    and ents: "command = ''sync run'' \<longrightarrow> \<not> noEntities options"
    and adv: "command = ''sync diff'' \<longrightarrow> \<not> (truthy (getProp options ''advanced'') \<and> outPathMissing options)"
  shows "(valid (validateCommandOptions command options) \<longleftrightarrow>
            (\<not> missing options ''sourceEnvironmentId'' \<and> \<not> missing options ''sourceApiKey'')
          \<or> (missing options ''sourceEnvironmentId'' \<and> \<not> missing options ''folderName''))
       \<and> (missing options ''sourceEnvironmentId'' \<and> missing options ''folderName'' \<longrightarrow>
            \<not> valid (validateCommandOptions command options))
       \<and> (\<not> missing options ''sourceEnvironmentId'' \<and> missing options ''sourceApiKey'' \<longrightarrow>
            validateCommandOptions command options =
              rejected ''sourceApiKey is required when using sourceEnvironmentId'')"
  using cmd
proof
  assume c: "command = ''sync run''"
  with ents have e: "\<not> noEntities options" by blast
  have "validateCommandOptions command options =
          (if missing options ''sourceEnvironmentId'' \<and> missing options ''folderName''
           then rejected ''Either sourceEnvironmentId+sourceApiKey or folderName is required for sync run''
           else if \<not> missing options ''sourceEnvironmentId'' \<and> missing options ''sourceApiKey''
           then rejected ''sourceApiKey is required when using sourceEnvironmentId''
           else accepted)"
    unfolding c validate_sync_run using target e by simp
  then show ?thesis by (rule source_rule)
next
  assume c: "command = ''sync diff''"
  with adv have a: "(truthy (getProp options ''advanced'') \<and> outPathMissing options) = False" by blast
  have "validateCommandOptions command options =
          (if missing options ''sourceEnvironmentId'' \<and> missing options ''folderName''
           then rejected ''Either sourceEnvironmentId+sourceApiKey or folderName is required for sync diff''
           else if \<not> missing options ''sourceEnvironmentId'' \<and> missing options ''sourceApiKey''
           then rejected ''sourceApiKey is required when using sourceEnvironmentId''
           else accepted)"
    unfolding c validate_sync_diff using target by (simp add: a)
  then show ?thesis by (rule source_rule)
qed


theorem sync_source_shapes_witness:
  "valid (validateCommandOptions ''sync run''
            (syncOptions (JStr ''223e4567-e89b-12d3-a456-426614174000'') (JStr ''bbbbbbbbbbbbbbbbbbbb'') JUndefined))
   \<and> valid (validateCommandOptions ''sync diff'' (syncOptions JUndefined JUndefined (JStr ''snapshot'')))
   \<and> \<not> valid (validateCommandOptions ''sync diff'' (syncOptions JUndefined JUndefined JUndefined))
   \<and> validateCommandOptions ''sync run''
         (syncOptions (JStr ''223e4567-e89b-12d3-a456-426614174000'') JUndefined (JStr ''snapshot''))
       = rejected ''sourceApiKey is required when using sourceEnvironmentId''"
proof -
  let ?id = "JStr ''223e4567-e89b-12d3-a456-426614174000''"
  let ?key = "JStr ''bbbbbbbbbbbbbbbbbbbb''"
  let ?folder = "JStr ''snapshot''"
  have facts:
    "\<And>a b c. \<not> missing (syncOptions a b c) ''targetEnvironmentId''"
    "\<And>a b c. \<not> missing (syncOptions a b c) ''targetApiKey''"
    "\<And>a b c. \<not> noEntities (syncOptions a b c)"
    "\<And>a b c. \<not> truthy (getProp (syncOptions a b c) ''advanced'')"
    "\<And>a b c. missing (syncOptions a b c) ''sourceEnvironmentId'' = (\<not> truthy a)"
    "\<And>a b c. missing (syncOptions a b c) ''sourceApiKey'' = (\<not> truthy b)"
    "\<And>a b c. missing (syncOptions a b c) ''folderName'' = (\<not> truthy c)"
    by (simp_all add: syncOptions_def missing_def getProp_def noEntities_def)
  from sync_source_shapes [of "''sync run''" "syncOptions ?id ?key JUndefined"] facts
  have a: "valid (validateCommandOptions ''sync run'' (syncOptions ?id ?key JUndefined))"
    by simp
  from sync_source_shapes [of "''sync diff''" "syncOptions JUndefined JUndefined ?folder"] facts
  have b: "valid (validateCommandOptions ''sync diff'' (syncOptions JUndefined JUndefined ?folder))"
    by simp
  from sync_source_shapes [of "''sync diff''" "syncOptions JUndefined JUndefined JUndefined"] facts
  have c: "\<not> valid (validateCommandOptions ''sync diff'' (syncOptions JUndefined JUndefined JUndefined))"
    by simp
  from sync_source_shapes [of "''sync run''" "syncOptions ?id JUndefined ?folder"] facts
  have d: "validateCommandOptions ''sync run'' (syncOptions ?id JUndefined ?folder)
             = rejected ''sourceApiKey is required when using sourceEnvironmentId''"
    by simp
  from a b c d show ?thesis by simp
qed

text \<open>
  The claim as stated fails for \<^verbatim>\<open>sync diff\<close>: with the target options and a folder
  alone, the mapping is still rejected when the advanced option is on and no output path
  is given.
\<close>

theorem sync_diff_folder_alone_rejected:
  "\<not> missing [(''targetEnvironmentId'', JStr ''123e4567-e89b-12d3-a456-426614174000''),
              (''targetApiKey'', JStr ''aaaaaaaaaaaaaaaaaaaa''),
              (''folderName'', JStr ''snapshot''),
              (''advanced'', JBool True)] ''folderName''
   \<and> \<not> valid (validateCommandOptions ''sync diff''
        [(''targetEnvironmentId'', JStr ''123e4567-e89b-12d3-a456-426614174000''),
         (''targetApiKey'', JStr ''aaaaaaaaaaaaaaaaaaaa''),
         (''folderName'', JStr ''snapshot''),
         (''advanced'', JBool True)])"
  by code_simp

section \<open>Properties of the option sanitizer\<close>

text \<open>
  Claim C7. The path check of the sanitizer accepts values the claim says it records as
  violations: a path whose parent-directory token disappears under normalisation, a path
  with a NUL byte, and a value of white space only all pass \<open>validateFilePath\<close>, and the
  sanitizer returns the mapping without an error.
\<close>

theorem validateFilePath_accepts_unsafe_paths:
  "validateFilePath posixNormalize (JStr ''folder/../backup.zip'') 500
   \<and> validateFilePath posixNormalize (JStr (''backup'' @ [CHR 0x00] @ ''.zip'')) 500
   \<and> validateFilePath posixNormalize (JStr ''   '') 500
   \<and> validateAndSanitizeOptions posixNormalize ''environment restore''
         [(''fileName'', JStr ''folder/../backup.zip''),
          (''folderName'', JStr (''backup'' @ [CHR 0x00] @ ''.zip'')),
          (''outPath'', JStr ''   '')]
       = Inr [(''fileName'', JStr ''folder/../backup.zip''),
              (''folderName'', JStr (''backup'' @ [CHR 0x00] @ ''.zip'')),
              (''outPath'', JStr [])]"
  by code_simp

section \<open>Properties of the argument builder\<close>

lemma toLowerChar_other:
  "c \<notin> set asciiUpper \<Longrightarrow> c \<notin> set latinUpper \<Longrightarrow> toLowerChar c = c"
proof -
  assume a: "c \<notin> set asciiUpper" and b: "c \<notin> set latinUpper"
  have "map_of (zip (asciiUpper @ latinUpper) (asciiLower @ latinLower)) c = None"
    using a b by (simp add: map_of_eq_None_iff asciiUpper_def asciiLower_def latinUpper_def latinLower_def)
  then show ?thesis by (simp add: toLowerChar_def)
qed

lemma kebabCase_Nil: "kebabCase [] = []"
  by (simp add: kebabCase_def toLowerCase_def)

lemma kebabCase_Cons:
  "kebabCase (c # cs) =
     (if c \<in> set asciiUpper then [CHR ''-'', toLowerChar c] else [toLowerChar c]) @ kebabCase cs"
proof -
  have dash: "toLowerChar CHR ''-'' = CHR ''-''"
    by code_simp
  show ?thesis by (simp add: kebabCase_def toLowerCase_def dash)
qed

lemma kebab_tail_agrees:
  "set cs \<inter> set latinUpper = {} \<Longrightarrow>
     kebabCase cs =
       concat (map (\<lambda>x. if x \<in> set (asciiUpper @ latinUpper) then [CHR ''-'', toLowerChar x] else [x]) cs)"
  by (induction cs) (auto simp: kebabCase_Nil kebabCase_Cons toLowerChar_other)

lemma kebab_agrees:
  assumes "key = [] \<or> hd key \<notin> set asciiUpper" and "set key \<inter> set latinUpper = {}"
  shows "kebabCase key = kebabInternal key"
proof (cases key)
  case Nil
  then show ?thesis by (simp add: kebabCase_Nil kebabInternal_def)
next
  case (Cons c cs)
  with assms have c: "c \<notin> set asciiUpper" "c \<notin> set latinUpper" and cs: "set cs \<inter> set latinUpper = {}"
    by auto
  show ?thesis
    unfolding Cons kebabCase_Cons kebabInternal_def
    using c by (simp add: toLowerChar_other kebab_tail_agrees [OF cs])
qed

lemma length_concat_pairs: "length (concat (map (\<lambda>v. [a, f v]) vs)) = 2 * length vs"
  by (induction vs) simp_all

text \<open>
  Claim C4, as amended. The argument vector is the space-split command followed, option by
  option in the order of the mapping, by: nothing for \<^verbatim>\<open>null\<close>, \<^verbatim>\<open>undefined\<close>, the
  empty string, \<^verbatim>\<open>false\<close>, a bare object or a key starting with an underscore; the bare
  flag for \<^verbatim>\<open>true\<close>; the flag before each element's string form for an array, hence
  \<open>2N\<close> tokens for \<open>N\<close> elements; the flag and the string form for a number or a
  non-empty string. The flag is \<^verbatim>\<open>--\<close> followed by the key with a hyphen put before
  every ASCII uppercase letter, a leading one included, and every letter lowercased. For
  a key that does not start with an uppercase letter (and has no uppercase letter beyond
  ASCII) this is the form the specification describes.
\<close>

theorem buildDataOpsArgs_tokens:
  "buildDataOpsArgs command options =
     splitOn CHR '' '' command @ concat (map (\<lambda>(key, value). optionArgs key value) options)
   \<and> (val = JNull \<or> val = JUndefined \<or> val = JStr [] \<or> val = JBool False
        \<or> (\<exists>fs. val = JObj fs) \<or> startsWith key ''_'' \<longrightarrow> optionArgs key val = [])
   \<and> (\<not> startsWith key ''_'' \<longrightarrow>
          optionArgs key (JBool True) = [''--'' @ kebabCase key]
        \<and> optionArgs key (JArr vs) = concat (map (\<lambda>v. [''--'' @ kebabCase key, String_js v]) vs)
        \<and> length (optionArgs key (JArr vs)) = 2 * length vs
        \<and> optionArgs key (JNum n) = [''--'' @ kebabCase key, showInt n]
        \<and> (s \<noteq> [] \<longrightarrow> optionArgs key (JStr s) = [''--'' @ kebabCase key, s]))
   \<and> kebabCase [] = []
   \<and> kebabCase (c # cs) =
        (if c \<in> set asciiUpper then [CHR ''-'', toLowerChar c] else [toLowerChar c]) @ kebabCase cs
   \<and> ((key = [] \<or> hd key \<notin> set asciiUpper) \<and> set key \<inter> set latinUpper = {} \<longrightarrow>
          kebabCase key = kebabInternal key)"
proof (intro conjI impI)
  show "buildDataOpsArgs command options =
          splitOn CHR '' '' command @ concat (map (\<lambda>(key, value). optionArgs key value) options)"
    by (simp add: buildDataOpsArgs_def)
next
  assume "val = JNull \<or> val = JUndefined \<or> val = JStr [] \<or> val = JBool False
            \<or> (\<exists>fs. val = JObj fs) \<or> startsWith key ''_''"
  then show "optionArgs key val = []"
    by (auto simp: optionArgs_def split: jsval.splits)
next
  assume "\<not> startsWith key ''_''"
  then show "optionArgs key (JBool True) = [''--'' @ kebabCase key]"
    by (simp add: optionArgs_def flag_def)
next
  assume "\<not> startsWith key ''_''"
  then show "optionArgs key (JArr vs) = concat (map (\<lambda>v. [''--'' @ kebabCase key, String_js v]) vs)"
    by (simp add: optionArgs_def flag_def)
next
  assume "\<not> startsWith key ''_''"
  then have "optionArgs key (JArr vs) = concat (map (\<lambda>v. [''--'' @ kebabCase key, String_js v]) vs)"
    by (simp add: optionArgs_def flag_def)
  then show "length (optionArgs key (JArr vs)) = 2 * length vs"
    by (simp only: length_concat_pairs)
next
  assume "\<not> startsWith key ''_''"
  then show "optionArgs key (JNum n) = [''--'' @ kebabCase key, showInt n]"
    by (simp add: optionArgs_def flag_def)
next
  assume "\<not> startsWith key ''_''" and "s \<noteq> []"
  then show "optionArgs key (JStr s) = [''--'' @ kebabCase key, s]"
    by (simp add: optionArgs_def flag_def)
next
  show "kebabCase [] = []" by (rule kebabCase_Nil)
next
  show "kebabCase (c # cs) =
          (if c \<in> set asciiUpper then [CHR ''-'', toLowerChar c] else [toLowerChar c]) @ kebabCase cs"
    by (rule kebabCase_Cons)
next
  assume "(key = [] \<or> hd key \<notin> set asciiUpper) \<and> set key \<inter> set latinUpper = {}"
  then show "kebabCase key = kebabInternal key"
    by (simp add: kebab_agrees)
qed

theorem buildDataOpsArgs_tokens_witness:
  "buildDataOpsArgs ''environment backup''
      [(''environmentId'', JStr ''123e4567-e89b-12d3-a456-426614174000''),
       (''apiKey'', JStr ''aaaaaaaaaaaaaaaaaaaa''),
       (''skipWarning'', JBool False),
       (''_profile'', JStr ''default'')]
     = [''environment'', ''backup'', ''--environment-id'', ''123e4567-e89b-12d3-a456-426614174000'',
        ''--api-key'', ''aaaaaaaaaaaaaaaaaaaa'']
   \<and> optionArgs ''skipWarning'' (JBool True) = [''--skip-warning'']
   \<and> length (optionArgs ''entities'' (JArr [JStr ''contentTypes'', JStr ''taxonomies'', JStr ''spaces''])) = 6
   \<and> kebabCase ''excludeInactiveLanguages'' = kebabInternal ''excludeInactiveLanguages''"
proof -
  let ?options = "[(''environmentId'', JStr ''123e4567-e89b-12d3-a456-426614174000''),
                   (''apiKey'', JStr ''aaaaaaaaaaaaaaaaaaaa''),
                   (''skipWarning'', JBool False),
                   (''_profile'', JStr ''default'')]"
  note whole = buildDataOpsArgs_tokens [THEN conjunct1]
  note none = buildDataOpsArgs_tokens [THEN conjunct2, THEN conjunct1, rule_format]
  note some = buildDataOpsArgs_tokens [THEN conjunct2, THEN conjunct2, THEN conjunct1, rule_format]
  note agree = buildDataOpsArgs_tokens [THEN conjunct2, THEN conjunct2, THEN conjunct2,
      THEN conjunct2, THEN conjunct2, rule_format]
  have k1: "\<not> startsWith ''environmentId'' ''_''" "\<not> startsWith ''apiKey'' ''_''"
    "\<not> startsWith ''skipWarning'' ''_''" "\<not> startsWith ''entities'' ''_''"
    by code_simp+
  have k2: "startsWith ''_profile'' ''_''"
    by code_simp
  have kb: "kebabCase ''environmentId'' = ''environment-id''" "kebabCase ''apiKey'' = ''api-key''"
    "kebabCase ''skipWarning'' = ''skip-warning''"
    by code_simp+
  have sp: "splitOn CHR '' '' ''environment backup'' = [''environment'', ''backup'']"
    by code_simp
  have a1: "optionArgs ''environmentId'' (JStr ''123e4567-e89b-12d3-a456-426614174000'')
              = [''--environment-id'', ''123e4567-e89b-12d3-a456-426614174000'']"
    using some [OF k1(1), where s = "''123e4567-e89b-12d3-a456-426614174000''"]
    by (simp add: kb)
  have a2: "optionArgs ''apiKey'' (JStr ''aaaaaaaaaaaaaaaaaaaa'') = [''--api-key'', ''aaaaaaaaaaaaaaaaaaaa'']"
    using some [OF k1(2), where s = "''aaaaaaaaaaaaaaaaaaaa''"]
    by (simp add: kb)
  have a3: "optionArgs ''skipWarning'' (JBool False) = []"
    by (rule none) simp
  have a4: "optionArgs ''_profile'' (JStr ''default'') = []"
    by (rule none) (simp add: k2)
  have a: "buildDataOpsArgs ''environment backup'' ?options
             = [''environment'', ''backup'', ''--environment-id'', ''123e4567-e89b-12d3-a456-426614174000'',
                ''--api-key'', ''aaaaaaaaaaaaaaaaaaaa'']"
    by (simp only: whole sp a1 a2 a3 a4 list.map prod.case concat.simps append.simps)
  have b: "optionArgs ''skipWarning'' (JBool True) = [''--skip-warning'']"
    using some [OF k1(3)] by (simp add: kb)
  have c: "length (optionArgs ''entities'' (JArr [JStr ''contentTypes'', JStr ''taxonomies'', JStr ''spaces''])) = 6"
    using some [OF k1(4), where vs = "[JStr ''contentTypes'', JStr ''taxonomies'', JStr ''spaces'']"]
    by simp
  have h: "(''excludeInactiveLanguages'' = [] \<or> hd ''excludeInactiveLanguages'' \<notin> set asciiUpper)
           \<and> set ''excludeInactiveLanguages'' \<inter> set latinUpper = {}"
    by code_simp
  have d: "kebabCase ''excludeInactiveLanguages'' = kebabInternal ''excludeInactiveLanguages''"
    by (rule agree) (rule h)
  from a b c d show ?thesis by (simp only: simp_thms)
qed

text \<open>
  The claim as stated fails on a key with a leading uppercase letter: the flag of \<^verbatim>\<open>Foo\<close>
  is \<^verbatim>\<open>---foo\<close>, where replacing the internal uppercase letters only gives \<^verbatim>\<open>--Foo\<close>.
  It also fails on an uppercase letter beyond ASCII, which is lowercased but gets no
  hyphen (here the letter with code 0xC9 after \<^verbatim>\<open>a\<close>).
\<close>

theorem leading_uppercase_key_flag:
  "buildDataOpsArgs ''sync run'' [(''Foo'', JBool True)] = [''sync'', ''run'', ''---foo'']
   \<and> ''--'' @ kebabInternal ''Foo'' = ''--Foo''
   \<and> buildDataOpsArgs ''sync run'' [([CHR ''a'', CHR 0xC9], JBool True)]
       = [''sync'', ''run'', [CHR ''-'', CHR ''-'', CHR ''a'', CHR 0xE9]]
   \<and> ''--'' @ kebabInternal [CHR ''a'', CHR 0xC9] = [CHR ''-'', CHR ''-'', CHR ''a'', CHR ''-'', CHR 0xE9]"
  by code_simp

section \<open>Properties of the stream relay\<close>

lemma resWrite_ended [simp]: "ended (resWrite m r) = ended r"
  by (simp add: resWrite_def)

lemma resWrite_written:
  "written (resWrite m r) = (if ended r then written r else written r @ [m])"
  by (simp add: resWrite_def)

lemma stageLoop_ended [simp]: "ended (stageLoop sts now line r) = ended r"
  by (induction sts) simp_all

lemma stageLoop_written:
  "\<exists>ps. written (stageLoop sts now line r) = written r @ ps
        \<and> (\<forall>m \<in> set ps. \<exists>st \<in> set sts. m = Progress (percent st) line (stage st))"
proof (induction sts)
  case Nil
  then show ?case by simp
next
  case (Cons st sts)
  show ?case
  proof (cases "test True (pattern st) line \<and> now - lastProgressUpdate r > 500")
    case True
    then show ?thesis
      by (cases "ended r") (auto simp: resWrite_def)
  next
    case False
    with Cons show ?thesis by auto
  qed
qed

lemma stage_percents: "st \<in> set (commandStages command) \<Longrightarrow> percent st \<le> 100"
  by (auto simp: commandStages_def progressStages_def split: if_splits)

lemma onStdoutLine_ended [simp]: "ended (onStdoutLine command now r line) = ended r"
  by (simp add: onStdoutLine_def)

lemma onStdoutLine_written:
  "\<exists>ps. written (onStdoutLine command now r line) = written r @ ps
        \<and> list_all benign ps \<and> list_all withinHundred ps"
proof -
  obtain ps where ps: "written (stageLoop (commandStages command) now line r) = written r @ ps"
    and from_table: "\<forall>m \<in> set ps. \<exists>st \<in> set (commandStages command). m = Progress (percent st) line (stage st)"
    using stageLoop_written by blast
  have "list_all benign ps" "list_all withinHundred ps"
    using from_table stage_percents by (auto simp: list_all_iff)
  then show ?thesis
    by (cases "ended r") (auto simp: onStdoutLine_def resWrite_written ps)
qed

lemma onStdoutData_ended [simp]: "ended (onStdoutData command now output r) = ended r"
proof -
  have "ended (foldl (onStdoutLine command now) r ls) = ended r" for ls
    by (induction ls arbitrary: r) simp_all
  then show ?thesis by (simp add: onStdoutData_def)
qed

lemma onStdoutData_written:
  "\<exists>ps. written (onStdoutData command now output r) = written r @ ps
        \<and> list_all benign ps \<and> list_all withinHundred ps"
proof -
  have "\<exists>ps. written (foldl (onStdoutLine command now) r ls) = written r @ ps
          \<and> list_all benign ps \<and> list_all withinHundred ps" for ls
  proof (induction ls arbitrary: r)
    case Nil
    then show ?case by simp
  next
    case (Cons l ls)
    obtain ps where 1: "written (onStdoutLine command now r l) = written r @ ps"
      "list_all benign ps" "list_all withinHundred ps"
      using onStdoutLine_written by blast
    obtain qs where 2: "written (foldl (onStdoutLine command now) (onStdoutLine command now r l) ls)
        = written (onStdoutLine command now r l) @ qs" "list_all benign qs" "list_all withinHundred qs"
      using Cons by blast
    from 1 2 show ?case by (intro exI [of _ "ps @ qs"]) simp
  qed
  then show ?thesis by (simp add: onStdoutData_def)
qed

lemma onStderrData_ended [simp]: "ended (onStderrData output r) = ended r"
proof -
  have "ended (foldl (\<lambda>r' line. resWrite (Output ''error'' line) r') r ls) = ended r" for ls
    by (induction ls arbitrary: r) simp_all
  then show ?thesis by (simp add: onStderrData_def)
qed

lemma onStderrData_written:
  "\<exists>ps. written (onStderrData output r) = written r @ ps
        \<and> list_all benign ps \<and> list_all withinHundred ps"
proof -
  have "\<exists>ps. written (foldl (\<lambda>r' line. resWrite (Output ''error'' line) r') r ls) = written r @ ps
          \<and> list_all benign ps \<and> list_all withinHundred ps" for ls
  proof (induction ls arbitrary: r)
    case Nil
    then show ?case by simp
  next
    case (Cons l ls)
    obtain qs where 2: "written (foldl (\<lambda>r' line. resWrite (Output ''error'' line) r')
          (resWrite (Output ''error'' l) r) ls)
        = written (resWrite (Output ''error'' l) r) @ qs" "list_all benign qs" "list_all withinHundred qs"
      using Cons by blast
    show ?case
    proof (cases "ended r")
      case True
      with 2 show ?thesis by (intro exI [of _ qs]) (simp add: resWrite_written)
    next
      case False
      with 2 show ?thesis by (intro exI [of _ "Output ''error'' l # qs"]) (simp add: resWrite_written)
    qed
  qed
  then show ?thesis by (simp add: onStderrData_def)
qed

lemma stageLoop_written_ended: "ended r \<Longrightarrow> written (stageLoop sts now line r) = written r"
  by (induction sts) (simp_all add: resWrite_def)

lemma onStdoutData_written_ended: "ended r \<Longrightarrow> written (onStdoutData command now output r) = written r"
proof -
  have "ended r \<Longrightarrow> written (foldl (onStdoutLine command now) r ls) = written r" for ls
    by (induction ls arbitrary: r)
      (simp_all add: onStdoutLine_def resWrite_written stageLoop_written_ended)
  then show "ended r \<Longrightarrow> written (onStdoutData command now output r) = written r"
    by (simp add: onStdoutData_def)
qed

lemma onStderrData_written_ended: "ended r \<Longrightarrow> written (onStderrData output r) = written r"
proof -
  have "ended r \<Longrightarrow> written (foldl (\<lambda>r' line. resWrite (Output ''error'' line) r') r ls) = written r" for ls
    by (induction ls arbitrary: r) (simp_all add: resWrite_written)
  then show "ended r \<Longrightarrow> written (onStderrData output r) = written r"
    by (simp add: onStderrData_def)
qed

lemma relayStep_after_end:
  "ended r \<Longrightarrow> ended (relayStep command r ev) \<and> written (relayStep command r ev) = written r"
  by (cases ev)
    (simp_all add: onStdoutData_written_ended onStderrData_written_ended onClose_def onError_def
      onRequestClose_def endResponse_def resWrite_def)

lemma relayRun_after_end:
  "ended r \<Longrightarrow> ended (relayRun command r evs) \<and> written (relayRun command r evs) = written r"
proof (induction evs arbitrary: r)
  case Nil
  then show ?case by (simp add: relayRun_def)
next
  case (Cons ev evs)
  from Cons.prems have "ended (relayStep command r ev)" "written (relayStep command r ev) = written r"
    by (simp_all add: relayStep_after_end)
  with Cons.IH [of "relayStep command r ev"] show ?case
    by (simp add: relayRun_def)
qed

lemma relayStep_output:
  assumes "isOutputEvent ev \<or> ev = RequestClose"
  shows "ended (relayStep command r ev) = ended r
       \<and> (\<exists>ps. written (relayStep command r ev) = written r @ ps \<and> list_all benign ps)"
proof (cases ev)
  case (StdoutData now chunk)
  then show ?thesis using onStdoutData_written [of command now chunk r] by auto
next
  case (StderrData chunk)
  then show ?thesis using onStderrData_written [of chunk r] by auto
next
  case (Close code)
  with assms show ?thesis by simp
next
  case (ChildError msg)
  with assms show ?thesis by simp
next
  case RequestClose
  then show ?thesis by (simp add: onRequestClose_def)
qed

lemma relayRun_output:
  assumes "\<forall>ev \<in> set evs. isOutputEvent ev \<or> ev = RequestClose"
  shows "ended (relayRun command r evs) = ended r
       \<and> (\<exists>ps. written (relayRun command r evs) = written r @ ps \<and> list_all benign ps)"
  using assms
proof (induction evs arbitrary: r)
  case Nil
  then show ?case by (simp add: relayRun_def)
next
  case (Cons ev evs)
  let ?r1 = "relayStep command r ev"
  from Cons.prems have ev: "isOutputEvent ev \<or> ev = RequestClose"
    and rest: "\<forall>e \<in> set evs. isOutputEvent e \<or> e = RequestClose"
    by simp_all
  obtain ps where 1: "ended ?r1 = ended r" "written ?r1 = written r @ ps" "list_all benign ps"
    using relayStep_output [OF ev] by blast
  obtain qs where 2: "ended (relayRun command ?r1 evs) = ended ?r1"
    "written (relayRun command ?r1 evs) = written ?r1 @ qs" "list_all benign qs"
    using Cons.IH [OF rest] by blast
  have run: "relayRun command r (ev # evs) = relayRun command ?r1 evs"
    by (simp add: relayRun_def)
  from 1 2 show ?case
    unfolding run by (intro conjI exI [of _ "ps @ qs"]) simp_all
qed

lemma relayRun_append:
  "relayRun command r (evs @ rest) = relayRun command (relayRun command r evs) rest"
  by (simp add: relayRun_def)

lemma relayRun_Cons:
  "relayRun command r (ev # rest) = relayRun command (relayStep command r ev) rest"
  by (simp add: relayRun_def)

lemma filter_benign:
  "list_all benign ps \<Longrightarrow> filter isComplete ps = [] \<and> filter isErrorEvent ps = []"
proof (induction ps)
  case Nil
  then show ?case by simp
next
  case (Cons m ps)
  then show ?case by (cases m) simp_all
qed

text \<open>
  The listeners as they are written. Were they registered on a running child process,
  then after any number of output chunks (and possibly a disconnect of the caller) a close
  with exit code \<open>c\<close> would add exactly one completion message, the last message on the
  stream whatever events follow; its success flag is true exactly when \<open>c = 0\<close>, for a
  nonzero code its text names \<open>c\<close>, and the stream holds no error message.
\<close>

lemma close_listener_writes_one_complete:
  assumes "\<forall>ev \<in> set evs. isOutputEvent ev \<or> ev = RequestClose"
  shows "written (relayRun command connected (evs @ Close (Some c) # later))
           = written (relayRun command connected evs) @ [completeMsg (Some c)]
       \<and> filter isComplete (written (relayRun command connected (evs @ Close (Some c) # later)))
           = [completeMsg (Some c)]
       \<and> filter isErrorEvent (written (relayRun command connected (evs @ Close (Some c) # later))) = []
       \<and> completeMsg (Some c) =
           Complete (c = 0) (if c = 0 then ''Command completed successfully''
                             else ''Command exited with code '' @ showInt c)"
proof -
  let ?before = "relayRun command connected evs"
  let ?closed = "relayStep command ?before (Close (Some c))"
  obtain ps where open_: "ended ?before = ended connected"
    and ps: "written ?before = written connected @ ps" "list_all benign ps"
    using relayRun_output [OF assms, of command connected] by blast
  have not_ended: "\<not> ended ?before"
    using open_ by (simp add: connected_def)
  have closed: "ended ?closed" "written ?closed = written ?before @ [completeMsg (Some c)]"
    using not_ended by (simp_all add: onClose_def endResponse_def resWrite_def)
  have all: "written (relayRun command connected (evs @ Close (Some c) # later))
               = written ?before @ [completeMsg (Some c)]"
    using relayRun_after_end [OF closed(1), of command later] closed(2)
    by (simp add: relayRun_append relayRun_Cons)
  have "written ?before = Connected ''Connected to command stream'' # ps"
    using ps(1) by (simp add: connected_def)
  then have quiet: "filter isComplete (written ?before) = []" "filter isErrorEvent (written ?before) = []"
    using filter_benign [OF ps(2)] by simp_all
  have msg: "completeMsg (Some c) =
               Complete (c = 0) (if c = 0 then ''Command completed successfully''
                                 else ''Command exited with code '' @ showInt c)"
    by (simp add: completeMsg_def exitCodeText_def)
  have kinds: "isComplete (completeMsg (Some c))" "\<not> isErrorEvent (completeMsg (Some c))"
    by (simp_all add: msg)
  show ?thesis
    using all quiet kinds msg by simp
qed








section \<open>Properties of the progress classifier\<close>











section \<open>Properties of the execute endpoint\<close>

lemma includesStr_prefix: "includesStr (key @ rest) key"
  by (simp add: includesStr_def)

lemma includesStr_after: "includesStr b sub \<Longrightarrow> includesStr (a @ b) sub"
  unfolding includesStr_def sublist_def by (metis append.assoc)

lemma includesStr_before: "includesStr a sub \<Longrightarrow> includesStr (a @ b) sub"
  unfolding includesStr_def sublist_def by (metis append.assoc)

lemma includesStr_join: "e \<in> set errors \<Longrightarrow> includesStr e key \<Longrightarrow> includesStr (join sep errors) key"
proof (induction sep errors rule: join.induct)
  case (1 sep)
  then show ?case by simp
next
  case (2 sep x)
  then show ?case by simp
next
  case (3 sep x y ys)
  show ?case
  proof (cases "e = x")
    case True
    with 3 show ?thesis by (simp add: includesStr_before)
  next
    case False
    with 3 have "includesStr (join sep (y # ys)) key" by simp
    then show ?thesis by (simp add: includesStr_after)
  qed
qed

lemma fieldErrors_name_key: "e \<in> set (fieldErrors normalizePath key v) \<Longrightarrow> includesStr e key"
  by (auto simp: fieldErrors_def includesStr_prefix split: if_splits)

lemma sanitizeLoop_errors:
  "snd (sanitizeLoop normalizePath opts (sanitized, errors)) =
     errors @ concat (map (\<lambda>(k, v). if startsWith k ''_'' then [] else fieldErrors normalizePath k v) opts)"
  by (induction opts arbitrary: sanitized errors) auto

lemma sanitize_names_offender:
  assumes "(key, v) \<in> set fs" "\<not> startsWith key ''_''" "fieldErrors normalizePath key v \<noteq> []"
  shows "\<exists>m. validateAndSanitizeOptions normalizePath cmd fs = Inl (Error m None) \<and> includesStr m key"
proof -
  let ?errors = "snd (sanitizeLoop normalizePath fs ([], []))"
  obtain e where e: "e \<in> set (fieldErrors normalizePath key v)"
    using assms(3) by (cases "fieldErrors normalizePath key v") auto
  have "e \<in> set ?errors"
    using assms(1,2) e by (force simp: sanitizeLoop_errors)
  moreover have "includesStr e key"
    using e by (rule fieldErrors_name_key)
  ultimately have named: "includesStr (join '', '' ?errors) key" and some: "?errors \<noteq> []"
    by (auto intro: includesStr_join)
  have "validateAndSanitizeOptions normalizePath cmd fs
          = Inl (Error (''Validation errors: '' @ join '', '' ?errors) None)"
    using some by (cases "sanitizeLoop normalizePath fs ([], [])") (simp add: validateAndSanitizeOptions_def)
  moreover have "includesStr (''Validation errors: '' @ join '', '' ?errors) key"
    using named by (rule includesStr_after)
  ultimately show ?thesis
    by blast
qed

lemma message_if:
  "message a \<noteq> Some [] \<Longrightarrow> message b \<noteq> Some [] \<Longrightarrow> message (if c then a else b) \<noteq> Some []"
  by simp

lemma validate_message_not_empty: "message (validateCommandOptions cmd opts) \<noteq> Some []"
  unfolding validateCommandOptions_def Let_def
  by (intro message_if) (simp_all add: accepted_def rejected_def)

lemma sanitize_error_shape:
  assumes "validateAndSanitizeOptions normalizePath cmd fs = Inl (Error msg code)"
  shows "msg \<noteq> [] \<and> code = None"
  using assms
  by (cases "sanitizeLoop normalizePath fs ([], [])")
    (auto simp: validateAndSanitizeOptions_def split: if_splits)

lemma executeCatch_status: "\<exists>err solution. executeCatch e = JsonReply 500 err solution"
  by (simp add: executeCatch_def)

lemma executeCatch_message:
  "msg \<noteq> [] \<Longrightarrow> \<not> includesStr msg ''not found'' \<Longrightarrow>
     \<exists>solution. executeCatch (Error msg None) = JsonReply 500 msg solution"
  by (simp add: executeCatch_def catchTexts_def Let_def)

lemma executeBody_failure:
  assumes "validateAndSanitizeOptions normalizePath cmd fs = Inl (Error msg None)
           \<or> (\<exists>sanitized. validateAndSanitizeOptions normalizePath cmd fs = Inr sanitized
                \<and> validateCommandOptions cmd sanitized = rejected msg)"
  shows "executeBody normalizePath cliPath cliAccessible cmd fs = Inl (Error msg None) \<and> msg \<noteq> []"
  using assms
proof
  assume a: "validateAndSanitizeOptions normalizePath cmd fs = Inl (Error msg None)"
  then have "msg \<noteq> []" using sanitize_error_shape by blast
  with a show ?thesis by (simp add: executeBody_def)
next
  assume "\<exists>sanitized. validateAndSanitizeOptions normalizePath cmd fs = Inr sanitized
            \<and> validateCommandOptions cmd sanitized = rejected msg"
  then obtain sanitized where s: "validateAndSanitizeOptions normalizePath cmd fs = Inr sanitized"
    and v: "validateCommandOptions cmd sanitized = rejected msg"
    by blast
  have "message (validateCommandOptions cmd sanitized) \<noteq> Some []"
    by (rule validate_message_not_empty)
  with v have ne: "msg \<noteq> []" by (simp add: rejected_def)
  show ?thesis
    using ne by (simp add: executeBody_def s v rejected_def)
qed

lemma executeDataOpsCommand_failure:
  assumes "executeBody normalizePath cliPath cliAccessible cmd fs = Inl (Error msg None)"
  shows "executeDataOpsCommand normalizePath cliPath cliAccessible cmd fs =
           Inl (if includesStr msg ''not found'' then Error (cliNotFound cliPath) None else Error msg None)"
  using assms by (simp add: executeDataOpsCommand_def)

lemma postExecute_object:
  assumes "cmd \<noteq> []" "2 \<le> length (splitOn CHR '' '' cmd)" "length (splitOn CHR '' '' cmd) \<le> 3"
    and "\<not> truthy opts \<or> isObjectLike opts"
  shows "postExecute normalizePath cliPath cliAccessible child (JStr cmd) opts =
           (case executeDataOpsCommand normalizePath cliPath cliAccessible cmd (requestOptions opts) of
              Inl err \<Rightarrow> \<lparr>reply = executeCatch err, spawnCalls = []\<rparr>
            | Inr argv \<Rightarrow>
                (case child of
                   ChildRejected err \<Rightarrow> \<lparr>reply = executeCatch err, spawnCalls = [''node'' # argv]\<rparr>
                 | ChildResolved \<Rightarrow>
                     \<lparr>reply = EventStream (streamCatch cpOnTypeError connected),
                      spawnCalls = [''node'' # argv]\<rparr>))"
proof -
  from assms(4) have ok: "(truthy opts \<and> \<not> isObjectLike opts) = False"
    by blast
  from assms(1-3) show ?thesis
    by (simp add: postExecute_def ok)
qed

text \<open>
  What holds for every validation failure. Take a request whose command has two or three
  words and whose options are absent or an object, and let the sanitizer or the command
  validator fail with the message \<open>msg\<close>. Then the handler answers with a JSON rejection,
  writes no streaming event and creates no child process. Unless \<open>msg\<close> contains the
  words \<^verbatim>\<open>not found\<close>, the error text of the rejection is \<open>msg\<close> itself; and the
  message of a sanitizer failure contains the key of every option that violates a rule.
\<close>

lemma validation_failure_rejected:
  assumes shape: "cmd \<noteq> []" "2 \<le> length (splitOn CHR '' '' cmd)" "length (splitOn CHR '' '' cmd) \<le> 3"
    "\<not> truthy opts \<or> isObjectLike opts"
    and fails: "validateAndSanitizeOptions normalizePath cmd (requestOptions opts) = Inl (Error msg None)
           \<or> (\<exists>sanitized. validateAndSanitizeOptions normalizePath cmd (requestOptions opts) = Inr sanitized
                \<and> validateCommandOptions cmd sanitized = rejected msg)"
  shows "spawnCalls (postExecute normalizePath cliPath cliAccessible child (JStr cmd) opts) = []
       \<and> streamed (postExecute normalizePath cliPath cliAccessible child (JStr cmd) opts) = []
       \<and> (\<exists>err solution.
            reply (postExecute normalizePath cliPath cliAccessible child (JStr cmd) opts)
              = JsonReply 500 err solution)
       \<and> (\<not> includesStr msg ''not found'' \<longrightarrow>
            (\<exists>solution.
               reply (postExecute normalizePath cliPath cliAccessible child (JStr cmd) opts)
                 = JsonReply 500 msg solution))
       \<and> (\<forall>key v. (key, v) \<in> set (requestOptions opts) \<and> \<not> startsWith key ''_''
              \<and> fieldErrors normalizePath key v \<noteq> [] \<longrightarrow>
            (\<exists>m. validateAndSanitizeOptions normalizePath cmd (requestOptions opts) = Inl (Error m None)
                 \<and> includesStr m key))"
proof -
  let ?out = "postExecute normalizePath cliPath cliAccessible child (JStr cmd) opts"
  let ?err = "if includesStr msg ''not found'' then Error (cliNotFound cliPath) None else Error msg None"
  have body: "executeBody normalizePath cliPath cliAccessible cmd (requestOptions opts) = Inl (Error msg None)"
    and ne: "msg \<noteq> []"
    using executeBody_failure [OF fails] by simp_all
  have out: "?out = \<lparr>reply = executeCatch ?err, spawnCalls = []\<rparr>"
    by (simp only: postExecute_object [OF shape] executeDataOpsCommand_failure [OF body] sum.case)
  obtain err solution where r: "executeCatch ?err = JsonReply 500 err solution"
    using executeCatch_status by blast
  have 1: "spawnCalls ?out = []"
    by (simp add: out)
  have 2: "streamed ?out = []"
    by (simp add: out streamed_def r)
  have 3: "\<exists>err solution. reply ?out = JsonReply 500 err solution"
    using r by (simp add: out)
  have 4: "\<not> includesStr msg ''not found'' \<longrightarrow> (\<exists>solution. reply ?out = JsonReply 500 msg solution)"
    using executeCatch_message [OF ne] by (simp add: out)
  have 5: "\<forall>key v. (key, v) \<in> set (requestOptions opts) \<and> \<not> startsWith key ''_''
               \<and> fieldErrors normalizePath key v \<noteq> [] \<longrightarrow>
             (\<exists>m. validateAndSanitizeOptions normalizePath cmd (requestOptions opts) = Inl (Error m None)
                  \<and> includesStr m key)"
    using sanitize_names_offender by blast
  from 1 2 3 4 5 show ?thesis by blast
qed

lemma missing_apiKey_rejected:
  "postExecute posixNormalize ''/app/data-ops/build/src/index.js'' True ChildResolved
      (JStr ''environment backup'')
      (JObj [(''environmentId'', JStr ''123e4567-e89b-12d3-a456-426614174000'')])
     = \<lparr>reply = JsonReply 500 ''environmentId and apiKey are required for environment backup''
                 ''Please ensure all required fields are filled in correctly.'',
        spawnCalls = []\<rparr>"
  by code_simp

text \<open>
  Claim C2. A request whose options fail validation is to be rejected with a message that
  names the offending option. For the option key \<^verbatim>\<open>apiKey not found\<close> with a value that
  is too short, the sanitizer fails with a message naming the key, and the
  \<^verbatim>\<open>catch\<close> block of the route would pass this message on as it is; but the
  \<^verbatim>\<open>catch\<close> block of the executor has replaced it before, since it contains the words
  \<^verbatim>\<open>not found\<close>, and the rejection reads \<^verbatim>\<open>Data-ops CLI not found\<close>, which does not
  name the option. No child process is created and nothing is streamed.
\<close>

theorem not_found_key_hides_option:
  "validateAndSanitizeOptions posixNormalize ''environment backup'' [(''apiKey not found'', JStr ''short'')]
     = Inl (Error ''Validation errors: apiKey not found appears to be invalid'' None)
   \<and> executeCatch (Error ''Validation errors: apiKey not found appears to be invalid'' None)
     = JsonReply 500 ''Validation errors: apiKey not found appears to be invalid''
         ''Please correct the validation errors and try again.''
   \<and> postExecute posixNormalize ''/app/data-ops/build/src/index.js'' True ChildResolved
        (JStr ''environment backup'') (JObj [(''apiKey not found'', JStr ''short'')])
     = \<lparr>reply = JsonReply 500 ''Data-ops CLI not found''
                 ''Please ensure the data-ops repository is built. Run: cd data-ops && npm run build'',
        spawnCalls = []\<rparr>
   \<and> includesStr ''Data-ops CLI not found'' ''apiKey'' = False"
  by code_simp

lemma postExecute_reply:
  "(\<exists>status err solution.
      reply (postExecute normalizePath cliPath cliAccessible child command options)
        = JsonReply status err solution)
   \<or> reply (postExecute normalizePath cliPath cliAccessible child command options)
        = EventStream (streamCatch cpOnTypeError connected)"
  by (simp add: postExecute_def executeCatch_def split: jsval.splits sum.splits childSettled.splits)

lemma streamCatch_connected:
  "written (streamCatch cpOnTypeError connected)
     = [Connected ''Connected to command stream'',
        ErrorEvent (fst (catchTexts cpOnTypeError)) (Some (snd (catchTexts cpOnTypeError)))]"
  by (simp add: streamCatch_def connected_def endResponse_def resWrite_def)

text \<open>
  Claim C1. When the child process closes with exit code \<open>c\<close>, one completion message is
  to be the last message of the stream. The handler never writes one, whatever the
  request and however the child process ends. When the child process has exited with code
  0, the handler writes the connection message and then, as the value it awaited has no
  method \<^verbatim>\<open>on\<close>, an error message, and ends the stream. When the child process has
  exited with a nonzero code, the \<^verbatim>\<open>await\<close> throws the error of \<^verbatim>\<open>execa\<close> and the
  request is rejected as a whole, with nothing streamed.
\<close>

theorem execute_never_completes:
  "filter isComplete
     (streamed (postExecute normalizePath cliPath cliAccessible child command options)) = []
   \<and> streamed (postExecute posixNormalize ''/app/data-ops/build/src/index.js'' True ChildResolved
        (JStr ''environment backup'')
        (JObj [(''environmentId'', JStr ''123e4567-e89b-12d3-a456-426614174000''),
               (''apiKey'', JStr ''aaaaaaaaaaaaaaaaaaaa'')]))
     = [Connected ''Connected to command stream'',
        ErrorEvent ''cp.on is not a function''
          (Some ''Please check the error message and try again. If the issue persists, review the logs for more details.'')]
   \<and> postExecute posixNormalize ''/app/data-ops/build/src/index.js'' True
        (ChildRejected (Error ''Command failed with exit code 3: node /app/data-ops/build/src/index.js environment backup'' None))
        (JStr ''environment backup'')
        (JObj [(''environmentId'', JStr ''123e4567-e89b-12d3-a456-426614174000''),
               (''apiKey'', JStr ''aaaaaaaaaaaaaaaaaaaa'')])
     = \<lparr>reply = JsonReply 500
                 ''Command failed with exit code 3: node /app/data-ops/build/src/index.js environment backup''
                 ''Please check the error message and try again. If the issue persists, review the logs for more details.'',
        spawnCalls = [[''node'', ''/app/data-ops/build/src/index.js'', ''environment'', ''backup'',
                       ''--environment-id'', ''123e4567-e89b-12d3-a456-426614174000'',
                       ''--api-key'', ''aaaaaaaaaaaaaaaaaaaa'']]\<rparr>"
proof (intro conjI)
  show "filter isComplete
          (streamed (postExecute normalizePath cliPath cliAccessible child command options)) = []"
    using postExecute_reply [of normalizePath cliPath cliAccessible child command options]
    by (auto simp: streamed_def streamCatch_connected)
qed code_simp+

section \<open>Properties of the rate limiter\<close>

lemma checkRateLimitWith_fst:
  "fst (checkRateLimitWith window maxRequests now ip m) =
     (length (recentRequests window now (userRequests m ip)) < maxRequests)"
  by (auto simp: checkRateLimitWith_def Let_def)

lemma checkRateLimitWith_admit:
  assumes "length (recentRequests window now (userRequests m ip)) < maxRequests"
  shows "checkRateLimitWith window maxRequests now ip m =
           (True, m(ip \<mapsto> recentRequests window now (userRequests m ip) @ [now]))"
  using assms by (simp add: checkRateLimitWith_def Let_def)

lemma admitAll_burst:
  fixes t0 t1 t2 t3 t4 :: int
  assumes absent: "m ip = None"
    and ord: "t0 \<le> t1" "t1 \<le> t2" "t2 \<le> t3"
    and burst: "t3 - t0 \<le> 999"
    and later: "1000 \<le> t4 - t0"
  shows "admitAll 1000 3 ip m [t0, t1, t2, t3, t4] = [True, True, True, False, True]"
proof -
  let ?m1 = "m(ip \<mapsto> [t0])"
  let ?m2 = "m(ip \<mapsto> [t0, t1])"
  let ?m3 = "m(ip \<mapsto> [t0, t1, t2])"
  have c1: "checkRateLimitWith 1000 3 t0 ip m = (True, ?m1)"
    using absent by (simp add: checkRateLimitWith_def userRequests_def recentRequests_def)
  have c2: "checkRateLimitWith 1000 3 t1 ip ?m1 = (True, ?m2)"
    using ord burst by (simp add: checkRateLimitWith_def userRequests_def recentRequests_def)
  have c3: "checkRateLimitWith 1000 3 t2 ip ?m2 = (True, ?m3)"
    using ord burst by (simp add: checkRateLimitWith_def userRequests_def recentRequests_def)
  have c4: "checkRateLimitWith 1000 3 t3 ip ?m3 = (False, ?m3)"
    using ord burst by (simp add: checkRateLimitWith_def userRequests_def recentRequests_def)
  have "length (recentRequests 1000 t4 [t0, t1, t2]) < 3"
    using later by (simp add: recentRequests_def)
  then have "fst (checkRateLimitWith 1000 3 t4 ip ?m3)"
    by (simp add: checkRateLimitWith_fst userRequests_def)
  then obtain m5 where c5: "checkRateLimitWith 1000 3 t4 ip ?m3 = (True, m5)"
    by (cases "checkRateLimitWith 1000 3 t4 ip ?m3") simp
  show ?thesis
    by (simp add: c1 c2 c3 c4 c5)
qed

text \<open>
  Claim C9. Every check prunes the client's recorded timestamps to those less than the
  window old, and admits the request exactly when the pruned count is strictly below the
  maximum; an admitted request stores the pruned list extended by the current time. With a
  window of 1000 ms and a maximum of 3, four checks of a fresh client within 999 ms answer
  true, true, true, false, and a check made once 1000 ms have passed since the first
  answers true again. \<open>checkRateLimit\<close> itself is this check with a window of 60000 ms
  and a maximum of 30.
\<close>

theorem checkRateLimit_prune_then_admit:
  fixes t0 t1 t2 t3 t4 :: int
  shows "(fst (checkRateLimitWith window maxRequests now ip m) \<longleftrightarrow>
            length (recentRequests window now (userRequests m ip)) < maxRequests)
       \<and> (fst (checkRateLimitWith window maxRequests now ip m) \<longrightarrow>
            snd (checkRateLimitWith window maxRequests now ip m) =
              m(ip \<mapsto> recentRequests window now (userRequests m ip) @ [now]))
       \<and> (m ip = None \<and> t0 \<le> t1 \<and> t1 \<le> t2 \<and> t2 \<le> t3 \<and> t3 - t0 \<le> 999 \<and> 1000 \<le> t4 - t0 \<longrightarrow>
            admitAll 1000 3 ip m [t0, t1, t2, t3, t4] = [True, True, True, False, True])
       \<and> checkRateLimit now ip m = checkRateLimitWith 60000 30 now ip m"
proof (intro conjI impI)
  show "fst (checkRateLimitWith window maxRequests now ip m) \<longleftrightarrow>
          length (recentRequests window now (userRequests m ip)) < maxRequests"
    by (rule checkRateLimitWith_fst)
next
  assume "fst (checkRateLimitWith window maxRequests now ip m)"
  then have "length (recentRequests window now (userRequests m ip)) < maxRequests"
    by (simp add: checkRateLimitWith_fst)
  then show "snd (checkRateLimitWith window maxRequests now ip m) =
               m(ip \<mapsto> recentRequests window now (userRequests m ip) @ [now])"
    by (simp add: checkRateLimitWith_admit)
next
  assume "m ip = None \<and> t0 \<le> t1 \<and> t1 \<le> t2 \<and> t2 \<le> t3 \<and> t3 - t0 \<le> 999 \<and> 1000 \<le> t4 - t0"
  then show "admitAll 1000 3 ip m [t0, t1, t2, t3, t4] = [True, True, True, False, True]"
    by (intro admitAll_burst) simp_all
next
  show "checkRateLimit now ip m = checkRateLimitWith 60000 30 now ip m"
    by (simp add: checkRateLimit_def RATE_LIMIT_WINDOW_def RATE_LIMIT_MAX_REQUESTS_def)
qed

theorem checkRateLimit_prune_then_admit_witness:
  "fst (checkRateLimitWith 1000 3 1500 ''10.0.0.7'' [''10.0.0.7'' \<mapsto> [100, 600, 700]])
   \<and> snd (checkRateLimitWith 1000 3 1500 ''10.0.0.7'' [''10.0.0.7'' \<mapsto> [100, 600, 700]]) ''10.0.0.7''
       = Some [600, 700, 1500]
   \<and> admitAll 1000 3 ''10.0.0.7'' Map.empty [0, 300, 600, 999, 1000]
       = [True, True, True, False, True]"
proof -
  note one = checkRateLimit_prune_then_admit
    [of 1000 3 1500 "''10.0.0.7''" "[''10.0.0.7'' \<mapsto> [100, 600, 700]]" 0 300 600 999 1000]
  note run = checkRateLimit_prune_then_admit
    [of 1000 3 0 "''10.0.0.7''" Map.empty 0 300 600 999 1000]
  have pruned: "recentRequests 1000 1500 (userRequests [''10.0.0.7'' \<mapsto> [100, 600, 700]] ''10.0.0.7'')
                  = [600, 700]"
    by (simp add: recentRequests_def userRequests_def)
  from one pruned
  have a: "fst (checkRateLimitWith 1000 3 1500 ''10.0.0.7'' [''10.0.0.7'' \<mapsto> [100, 600, 700]])"
    by simp
  with one pruned
  have b: "snd (checkRateLimitWith 1000 3 1500 ''10.0.0.7'' [''10.0.0.7'' \<mapsto> [100, 600, 700]]) ''10.0.0.7''
             = Some [600, 700, 1500]"
    by simp
  from run
  have c: "admitAll 1000 3 ''10.0.0.7'' Map.empty [0, 300, 600, 999, 1000]
             = [True, True, True, False, True]"
    by simp
  from a b c show ?thesis by simp
qed

text \<open>
  Claim C10. A rejected check leaves the stored map exactly as it was: the rejected request
  is not recorded and the pruned list is not written back either. This holds for every
  window and maximum, and so for \<open>checkRateLimit\<close> with the constants of the module.
\<close>

theorem checkRateLimit_reject_unchanged:
  "(\<not> fst (checkRateLimitWith window maxRequests now ip m) \<longrightarrow>
      snd (checkRateLimitWith window maxRequests now ip m) = m)
   \<and> (\<not> fst (checkRateLimit now ip m) \<longrightarrow> snd (checkRateLimit now ip m) = m)"
  by (simp add: checkRateLimit_def checkRateLimitWith_def Let_def)

theorem checkRateLimit_reject_unchanged_witness:
  "\<not> fst (checkRateLimitWith 1000 3 5500 ''10.0.0.7'' [''10.0.0.7'' \<mapsto> [0, 5000, 5001, 5002]])
   \<and> snd (checkRateLimitWith 1000 3 5500 ''10.0.0.7'' [''10.0.0.7'' \<mapsto> [0, 5000, 5001, 5002]])
       = [''10.0.0.7'' \<mapsto> [0, 5000, 5001, 5002]]"
proof -
  have rej: "\<not> fst (checkRateLimitWith 1000 3 5500 ''10.0.0.7'' [''10.0.0.7'' \<mapsto> [0, 5000, 5001, 5002]])"
    by (simp add: checkRateLimitWith_def userRequests_def recentRequests_def)
  from rej checkRateLimit_reject_unchanged [THEN conjunct1, rule_format, OF rej] show ?thesis
    by (simp only: simp_thms)
qed

end
